theory Spec2Isabelle
  imports Complex_Main
begin

section \<open>Sparse attention dispatch in \<open>common_attention.py\<close>\<close>

text \<open>
  A shallow embedding of the parts of
  \<open>TensorFlow/nlp/transformer/layers/common_attention.py\<close> that route tokens into
  capacity-bounded buckets: the type-appropriate bias sentinel, the LSH gating, the
  configuration checks, the threshold gating and capacities of
  \<open>grouped_attention_multihead\<close>, the batched LSH head and the expert kernels.

  Conventions. A float tensor element is the real number it denotes, and the
  arithmetic on tensor elements is that of the reals: rounding, overflow and underflow
  are not modelled there. Where a result below depends on floating-point arithmetic,
  in the capacities of \<open>grouped_attention_multihead\<close>, the floating-point
  operations are parameters of the model. A rank-2 tensor is a list of rows, a rank-3 tensor a
  list of those; where a dimension may be zero the static dimension the source reads
  with \<open>shape_list\<close> or \<open>get_shape\<close> is passed next to the data. Python exceptions
  are values of \<open>error\<close>, and a function that can raise returns \<open>error + 'a\<close>.
\<close>

subsection \<open>Errors and dtypes\<close>

text \<open>
  \<open>ValueError\<close> carries the format string of the source's message (the arguments
  substituted by \<open>%\<close> are left out). \<open>InvalidArgumentError\<close> is what a TensorFlow
  op raises for an ill-shaped operand.
\<close>

datatype error =
    ValueError string
  | ZeroDivisionError
  | AssertionError
  | NotImplementedError string
  | InvalidArgumentError string

datatype dtype =
    DT_float16 | DT_bfloat16 | DT_float32 | DT_float64
  | DT_int32 | DT_int64 | DT_bool

text \<open>
  \<open>tf.float16.min\<close> is a constant of TensorFlow: the most negative finite value of
  IEEE binary16, \<open>-65504\<close>.
\<close>

definition float16_min :: real where
  "float16_min = - 65504"

text \<open>The largest finite binary16 magnitude: an 11-bit significand \<open>2 - 2^-10\<close> at exponent 15.\<close>

definition float16_largest :: real where
  "float16_largest = (2 - 1 / 2 ^ 10) * 2 ^ 15"

text \<open>
  \<^verbatim>\<open>
  def large_compatible_negative(tensor_type):
    if tensor_type == tf.float16:
      return tf.float16.min
    return -1e9
  \<close>
\<close>

definition large_compatible_negative :: "dtype \<Rightarrow> real" where
  "large_compatible_negative tensor_type =
     (if tensor_type = DT_float16 then float16_min else - 1000000000)"

subsection \<open>Vectors and matrices\<close>

definition dot :: "real list \<Rightarrow> real list \<Rightarrow> real" where
  "dot u v = sum_list (map2 (*) u v)"

text \<open>Column \<open>j\<close> of a row-major matrix, and its first \<open>m\<close> columns.\<close>

definition column :: "real list list \<Rightarrow> nat \<Rightarrow> real list" where
  "column b j = map (\<lambda>row. row ! j) b"

definition columns :: "nat \<Rightarrow> real list list \<Rightarrow> real list list" where
  "columns m b = map (column b) [0..<m]"

text \<open>
  \<open>tf.matmul(a, b, transpose_b=True)\<close>: entry \<open>(i, j)\<close> is the dot product of row
  \<open>i\<close> of \<open>a\<close> and row \<open>j\<close> of \<open>b\<close>.
\<close>

definition matmul_transpose_b :: "real list list \<Rightarrow> real list list \<Rightarrow> real list list" where
  "matmul_transpose_b a b = map (\<lambda>row. map (dot row) b) a"

text \<open>\<open>tf.matmul(a, b)\<close> for \<open>b\<close> with \<open>m\<close> columns.\<close>

definition matmul :: "nat \<Rightarrow> real list list \<Rightarrow> real list list \<Rightarrow> real list list" where
  "matmul m a b = matmul_transpose_b a (columns m b)"

text \<open>\<open>tf.argmax\<close> along the last axis: the smallest index holding the maximum.\<close>

fun argmax :: "real list \<Rightarrow> nat" where
  "argmax [] = 0"
| "argmax (x # xs) = (if xs = [] \<or> xs ! argmax xs \<le> x then 0 else Suc (argmax xs))"

text \<open>\<open>tf.one_hot(i, depth)\<close>: all zeros when \<open>i\<close> is not below \<open>depth\<close>.\<close>

definition one_hot :: "nat \<Rightarrow> nat \<Rightarrow> real list" where
  "one_hot i depth = map (\<lambda>j. if j = i then 1 else 0) [0..<depth]"

subsection \<open>\<open>LshGating\<close>\<close>

record LshGating =
  self_depth :: nat
  self_nb_hyperplanes :: nat
  self_nb_buckets :: nat
  self_nb_replicat :: int
  self_trainable :: bool
  self_t_vectors :: "real list list"
  self_t_group :: "real list list"

text \<open>\<open>bin(i)[2:]\<close>: the binary digits of \<open>i\<close>, most significant first.\<close>

fun bin_digits :: "nat \<Rightarrow> string" where
  "bin_digits i =
     (if i < 2 then [if i = 0 then CHR ''0'' else CHR ''1'']
      else bin_digits (i div 2) @ [if i mod 2 = 0 then CHR ''0'' else CHR ''1''])"

declare bin_digits.simps [simp del]

text \<open>\<open>str.zfill(width)\<close> on a string without sign: pad with \<open>0\<close> on the left, never cut.\<close>

definition zfill :: "nat \<Rightarrow> string \<Rightarrow> string" where
  "zfill width s = replicate (width - length s) (CHR ''0'') @ s"

text \<open>
  \<^verbatim>\<open>
  def _idx_to_bits(self, i):
    bits = bin(i)[2:].zfill(self.nb_hyperplanes)  # Pad the bits str with 0
    return [-1.0 if b == "0" else 1.0 for b in bits]
  \<close>
\<close>

definition idx_to_bits :: "nat \<Rightarrow> nat \<Rightarrow> real list" where
  "idx_to_bits nb_hyperplanes i =
     map (\<lambda>b. if b = CHR ''0'' then - 1 else 1) (zfill nb_hyperplanes (bin_digits i))"

text \<open>
  \<open>LshGating.__init__\<close>. The variable \<open>vector\<close> that \<open>tf.get_variable\<close> returns (shape
  \<open>(depth, nb_hyperplanes * nb_replicat)\<close>) is the argument \<open>vector\<close>; the
  \<open>assert\<close> comes before it is created.
  \<^verbatim>\<open>
    self.nb_buckets = 2**nb_hyperplanes
    ...
    assert self.nb_replicat == 1  # For now
    ...
      self.t_group = tf.constant(
          [self._idx_to_bits(i) for i in range(self.nb_buckets)], ...)
  \<close>
\<close>

definition LshGating_init ::
  "real list list \<Rightarrow> nat \<Rightarrow> nat \<Rightarrow> int \<Rightarrow> bool \<Rightarrow> error + LshGating" where
  "LshGating_init vector dpth nb_hyperplanes nb_replicat trainable =
     (if nb_replicat \<noteq> 1 then Inl AssertionError
      else Inr \<lparr> self_depth = dpth,
                 self_nb_hyperplanes = nb_hyperplanes,
                 self_nb_buckets = 2 ^ nb_hyperplanes,
                 self_nb_replicat = nb_replicat,
                 self_trainable = trainable,
                 self_t_vectors = vector,
                 self_t_group = map (idx_to_bits nb_hyperplanes) [0..<2 ^ nb_hyperplanes] \<rparr>)"

text \<open>
  The similarity score of every bucket for one token \<open>row\<close>: the signs of its projections
  on the hyperplanes, multiplied with the \<open>\<plusminus>1\<close> patterns of \<open>t_group\<close> and divided by
  \<open>nb_hyperplanes\<close>.
\<close>

definition lsh_signs :: "LshGating \<Rightarrow> real list \<Rightarrow> real list" where
  "lsh_signs self row =
     map (\<lambda>col. sgn (dot row col))
       (columns (self_nb_hyperplanes self * nat (self_nb_replicat self)) (self_t_vectors self))"

definition lsh_scores :: "LshGating \<Rightarrow> real list \<Rightarrow> real list" where
  "lsh_scores self row =
     map (\<lambda>bits. dot (lsh_signs self row) bits / real (self_nb_hyperplanes self))
       (self_t_group self)"

text \<open>
  \<^verbatim>\<open>
  def get_gates(self, x):
    x = tf.stop_gradient(x)
    x = tf.matmul(x, self.t_vectors)
    x = tf.sign(x)
    x = tf.matmul(x, self.t_group, transpose_b=True) / self.nb_hyperplanes
    x = tf.argmax(x, axis=-1)
    x = tf.one_hot(x, self.nb_buckets)
    return x
  \<close>
\<close>

definition get_gates :: "LshGating \<Rightarrow> real list list \<Rightarrow> real list list" where
  "get_gates self x =
     (let x1 = matmul (self_nb_hyperplanes self * nat (self_nb_replicat self)) x
                 (self_t_vectors self);
          x2 = map (map sgn) x1;
          x3 = map (map (\<lambda>s. s / real (self_nb_hyperplanes self)))
                 (matmul_transpose_b x2 (self_t_group self));
          x4 = map argmax x3
      in map (\<lambda>i. one_hot i (self_nb_buckets self)) x4)"

subsection \<open>Configuration checks\<close>

text \<open>Python's \<open>a % b\<close> on integers: the sign follows the divisor, and \<open>b = 0\<close> raises.\<close>

definition py_mod :: "int \<Rightarrow> int \<Rightarrow> error + int" where
  "py_mod a b = (if b = 0 then Inl ZeroDivisionError else Inr (a mod b))"

definition key_depth_message :: string where
  "key_depth_message =
     ''Key depth (%d) must be divisible by the number of attention heads (%d).''"

definition value_depth_message :: string where
  "value_depth_message =
     ''Value depth (%d) must be divisible by the number of attention heads (%d).''"

text \<open>
  The checks that open \<open>multihead_attention\<close>, before any variable scope is entered.
  The optional arguments are represented by whether they are \<open>None\<close>. \<open>Inr ()\<close> means
  that the function goes on to build the graph.
  \<^verbatim>\<open>
  if total_key_depth % num_heads != 0:
    raise ValueError("Key depth (%d) must be divisible by the number of "
                     "attention heads (%d)." % (total_key_depth, num_heads))
  if total_value_depth % num_heads != 0:
    raise ValueError("Value depth (%d) must be divisible by the number of "
                     "attention heads (%d)." % (total_value_depth, num_heads))
  vars_3d_num_heads = num_heads if vars_3d else 0
  if layer_collection is not None:
    if cache is not None:
      raise ValueError("KFAC implementation only supports cache is None.")
    if vars_3d:
      raise ValueError("KFAC implementation does not support 3d vars.")
  if recurrent_memory is not None:
    if memory_antecedent is not None:
      raise ValueError("Recurrent memory requires memory_antecedent is None.")
    if cache is not None:
      raise ValueError("Cache is not supported when using recurrent memory.")
    if vars_3d:
      raise ValueError("3d vars are not supported when using recurrent memory.")
    if layer_collection is not None:
      raise ValueError("KFAC is not supported when using recurrent memory.")
    if chunk_number is None:
      raise ValueError("chunk_number is required when using recurrent memory.")
  \<close>
\<close>

record multihead_options =
  has_layer_collection :: bool
  has_cache :: bool
  vars_3d :: bool
  has_recurrent_memory :: bool
  has_memory_antecedent :: bool
  has_chunk_number :: bool

definition multihead_attention_checks ::
  "int \<Rightarrow> int \<Rightarrow> int \<Rightarrow> multihead_options \<Rightarrow> error + unit" where
  "multihead_attention_checks total_key_depth total_value_depth num_heads opts =
     (case py_mod total_key_depth num_heads of
        Inl e \<Rightarrow> Inl e
      | Inr rk \<Rightarrow>
          if rk \<noteq> 0 then Inl (ValueError key_depth_message)
          else (case py_mod total_value_depth num_heads of
             Inl e \<Rightarrow> Inl e
           | Inr rv \<Rightarrow>
               if rv \<noteq> 0 then Inl (ValueError value_depth_message)
               else if has_layer_collection opts \<and> has_cache opts
                 then Inl (ValueError ''KFAC implementation only supports cache is None.'')
               else if has_layer_collection opts \<and> vars_3d opts
                 then Inl (ValueError ''KFAC implementation does not support 3d vars.'')
               else if has_recurrent_memory opts \<and> has_memory_antecedent opts
                 then Inl (ValueError ''Recurrent memory requires memory_antecedent is None.'')
               else if has_recurrent_memory opts \<and> has_cache opts
                 then Inl (ValueError ''Cache is not supported when using recurrent memory.'')
               else if has_recurrent_memory opts \<and> vars_3d opts
                 then Inl (ValueError ''3d vars are not supported when using recurrent memory.'')
               else if has_recurrent_memory opts \<and> has_layer_collection opts
                 then Inl (ValueError ''KFAC is not supported when using recurrent memory.'')
               else if has_recurrent_memory opts \<and> \<not> has_chunk_number opts
                 then Inl (ValueError ''chunk_number is required when using recurrent memory.'')
               else Inr ()))"

text \<open>
  The head depths of \<open>grouped_attention_multihead\<close> (the three \<open>shape_list\<close> reads before
  them do not raise).
  \<^verbatim>\<open>
  if total_key_depth % num_heads != 0:
    raise ValueError(...)
  depth_qk = total_key_depth // num_heads
  if total_value_depth % num_heads != 0:
    raise ValueError(...)
  depth_v = total_value_depth // num_heads
  \<close>
\<close>

definition grouped_attention_multihead_depths ::
  "int \<Rightarrow> int \<Rightarrow> int \<Rightarrow> error + int \<times> int" where
  "grouped_attention_multihead_depths total_key_depth total_value_depth num_heads =
     (case py_mod total_key_depth num_heads of
        Inl e \<Rightarrow> Inl e
      | Inr rk \<Rightarrow>
          if rk \<noteq> 0 then Inl (ValueError key_depth_message)
          else (case py_mod total_value_depth num_heads of
             Inl e \<Rightarrow> Inl e
           | Inr rv \<Rightarrow>
               if rv \<noteq> 0 then Inl (ValueError value_depth_message)
               else Inr (total_key_depth div num_heads, total_value_depth div num_heads)))"

text \<open>
  \<open>dot_product_attention_relative\<close>: \<open>None\<close> and \<open>0\<close> are the falsy values of
  \<open>max_relative_position\<close>.
  \<^verbatim>\<open>
  if not max_relative_position:
    raise ValueError("Max relative position (%s) should be > 0 when using "
                     "relative self attention." % (max_relative_position))
  \<close>
\<close>

definition py_not_int :: "int option \<Rightarrow> bool" where
  "py_not_int v = (case v of None \<Rightarrow> True | Some n \<Rightarrow> n = 0)"

definition max_relative_position_message :: string where
  "max_relative_position_message =
     ''Max relative position (%s) should be > 0 when using relative self attention.''"

definition dot_product_attention_relative_check :: "int option \<Rightarrow> error + unit" where
  "dot_product_attention_relative_check max_relative_position =
     (if py_not_int max_relative_position then Inl (ValueError max_relative_position_message)
      else Inr ())"

text \<open>
  \<open>multihead_self_attention_reduced\<close>: \<open>multihead_params\<close> is a dict (here the list of
  its keys and values), falsy when \<open>None\<close> or empty.
  \<^verbatim>\<open>
  if not factor or not multihead_params:
    raise ValueError("factor and multihead_params should be set")
  if memory_antecedent is not None:
    raise NotImplementedError(
        "multihead_self_attention_reduced only works with self-attention")
  ...
  if reduction_type == "attention": ...
  elif reduction_type == "conv": ...
  else:
    raise ValueError("Unknown reduction type {}".format(reduction_type))
  if nonlinearity == "silu": ...
  elif nonlinearity != "none":
    raise ValueError("Unknown non linearity {}".format(nonlinearity))
  \<close>
\<close>

definition py_not_dict :: "('k \<times> 'v) list option \<Rightarrow> bool" where
  "py_not_dict d = (case d of None \<Rightarrow> True | Some kvs \<Rightarrow> kvs = [])"

definition multihead_self_attention_reduced_checks ::
  "bool \<Rightarrow> int option \<Rightarrow> ('k \<times> 'v) list option \<Rightarrow> string \<Rightarrow> string \<Rightarrow> error + unit" where
  "multihead_self_attention_reduced_checks has_memory factor multihead_params
       nonlinearity reduction_type =
     (if py_not_int factor \<or> py_not_dict multihead_params
        then Inl (ValueError ''factor and multihead_params should be set'')
      else if has_memory
        then Inl (NotImplementedError
                    ''multihead_self_attention_reduced only works with self-attention'')
      else if reduction_type \<noteq> ''attention'' \<and> reduction_type \<noteq> ''conv''
        then Inl (ValueError ''Unknown reduction type {}'')
      else if nonlinearity \<noteq> ''silu'' \<and> nonlinearity \<noteq> ''none''
        then Inl (ValueError ''Unknown non linearity {}'')
      else Inr ())"

subsection \<open>\<open>expert_utils.TruncatingDispatcher\<close>\<close>

text \<open>
  Modelled from the spec: the class \<open>TruncatingDispatcher\<close> of
  \<open>TensorFlow/nlp/transformer/utils/expert_utils.py\<close>, which this file calls and
  which is not among the sources. One dispatcher of the model serves one entry of
  the leading \<open>batch * heads\<close> axis: \<open>td_requests\<close> is its \<open>[length, num_experts]\<close>
  matrix of requests (zero: not requested), \<open>td_capacity\<close> the capacity of every bucket.
\<close>

record TruncatingDispatcher =
  td_requests :: "real list list"
  td_num_experts :: nat
  td_capacity :: nat

text \<open>
  Modelled from the spec: the tokens that request bucket \<open>e\<close>, "in original order"
  (\<open>TruncatingDispatcher\<close> is not among the sources).
\<close>

definition expert_tokens :: "TruncatingDispatcher \<Rightarrow> nat \<Rightarrow> nat list" where
  "expert_tokens d e =
     filter (\<lambda>j. td_requests d ! j ! e \<noteq> 0) [0..<length (td_requests d)]"

text \<open>
  Modelled from the spec: the slots of bucket \<open>e\<close> (\<open>TruncatingDispatcher\<close> is not
  among the sources): "gather up to capacity assigned tokens in original order; fewer
  tokens: zero-pad; more tokens: truncate deterministically (drop tokens past capacity,
  in original index order)". \<open>Some j\<close> is a slot holding token \<open>j\<close>, \<open>None\<close> a padding
  slot.
\<close>

definition expert_slots :: "TruncatingDispatcher \<Rightarrow> nat \<Rightarrow> nat option list" where
  "expert_slots d e =
     (let kept = take (td_capacity d) (expert_tokens d e)
      in map Some kept @ replicate (td_capacity d - length kept) None)"

text \<open>
  Modelled from the spec: \<open>TruncatingDispatcher.dispatch\<close> (not among the sources), "a
  dense rectangular tensor of shape [num_buckets, capacity, feature_dim], zero-padded
  where a bucket holds fewer tokens than capacity". \<open>depth\<close> is the feature dimension
  of \<open>inp\<close>.
\<close>

definition dispatch :: "TruncatingDispatcher \<Rightarrow> nat \<Rightarrow> real list list \<Rightarrow> real list list list" where
  "dispatch d depth inp =
     map (\<lambda>e. map (\<lambda>s. case s of Some j \<Rightarrow> inp ! j | None \<Rightarrow> replicate depth 0)
                 (expert_slots d e))
       [0..<td_num_experts d]"

text \<open>
  Modelled from the spec: \<open>TruncatingDispatcher.combine\<close> (not among the sources),
  "scatter each bucket's output rows back to the original token positions, weighted by
  gate value; tokens with no contributing bucket receive a zero vector". Entry \<open>c\<close> of
  the row of token \<open>j\<close> sums, over every bucket and every slot holding \<open>j\<close>, the slot's
  output weighted by the request of \<open>j\<close> for the bucket (a \<open>slot\<close> below pairs the
  slot's content with its output row).
\<close>

definition combine :: "TruncatingDispatcher \<Rightarrow> nat \<Rightarrow> real list list list \<Rightarrow> real list list" where
  "combine d depth x =
     map (\<lambda>j. map (\<lambda>c. sum_list (map (\<lambda>e. sum_list (map (\<lambda>slot.
                          if fst slot = Some j then td_requests d ! j ! e * snd slot ! c else 0)
                        (zip (expert_slots d e) (x ! e))))
                      [0..<td_num_experts d]))
                [0..<depth])
       [0..<length (td_requests d)]"

text \<open>
  Modelled from the spec: the constructor
  \<open>TruncatingDispatcher(requests, expert_capacity)\<close> (not among the sources). The
  capacity of the spec is a number of slots, the second dimension \<open>C\<close> of the
  dispatched tensor \<open>[B, C, D]\<close>; for a negative \<open>expert_capacity\<close> the spec describes
  no dispatcher, and the model has none. \<open>num_experts\<close> is the last dimension of
  \<open>requests\<close>.
\<close>

definition TruncatingDispatcher_init ::
  "real list list \<Rightarrow> nat \<Rightarrow> int \<Rightarrow> TruncatingDispatcher option" where
  "TruncatingDispatcher_init requests num_experts expert_capacity =
     (if expert_capacity < 0 then None
      else Some \<lparr> td_requests = requests, td_num_experts = num_experts,
                  td_capacity = nat expert_capacity \<rparr>)"

subsection \<open>The attention kernel\<close>

text \<open>
  The softmax, over the reals. The program computes it in floating point, where it is
  rounded and where the exponential of a logit far below the others underflows to
  exactly \<open>0.0\<close>, which the real exponential never is. The kernel only appears below as
  the last step of \<open>expert_dot_product\<close>; nothing is proved about the value of a weight.
\<close>

definition softmax :: "real list \<Rightarrow> real list" where
  "softmax xs = map (\<lambda>x. exp x / sum_list (map exp xs)) xs"

text \<open>\<open>logits += bias\<close> for a bias already broadcast to the shape of the logits.\<close>

definition add_bias :: "real list list \<Rightarrow> real list list \<Rightarrow> real list list" where
  "add_bias logits bias = map2 (map2 (+)) logits bias"

text \<open>
  The \<open>weights\<close> of \<open>dot_product_attention\<close> for one \<open>[length_q, depth_k]\<close> query
  matrix, with the defaults \<open>hard_attention_k=0\<close> and \<open>dropout_rate=0.0\<close> (keep
  probability one); the casts are the identity on reals.
  \<^verbatim>\<open>
    logits = tf.matmul(q, k, transpose_b=True)  # [..., length_q, length_kv]
    if bias is not None:
      bias = common_layers.cast_like(bias, logits)
      logits += bias
    logits = maybe_upcast(logits, activation_dtype, weight_dtype)
    weights = tf.nn.softmax(logits, name="attention_weights")
    ...
    return tf.matmul(weights, v)
  \<close>
\<close>

definition dot_product_attention_weights ::
  "real list list \<Rightarrow> real list list \<Rightarrow> real list list option \<Rightarrow> real list list" where
  "dot_product_attention_weights q k bias =
     (let logits = matmul_transpose_b q k;
          logits = (case bias of None \<Rightarrow> logits | Some b \<Rightarrow> add_bias logits b)
      in map softmax logits)"

definition dot_product_attention ::
  "nat \<Rightarrow> real list list \<Rightarrow> real list list \<Rightarrow> real list list \<Rightarrow> real list list option
     \<Rightarrow> real list list" where
  "dot_product_attention depth_v q k v bias =
     matmul depth_v (dot_product_attention_weights q k bias) v"

subsection \<open>Floating point and 32-bit integers\<close>

text \<open>
  \<open>grouped_attention_multihead\<close> computes its capacities in \<open>float32\<close> and casts them
  to \<open>int32\<close>. The model takes the floating-point operations as parameters: \<open>'f\<close> is
  the type of the \<open>float32\<close> values (infinities and NaN among them), \<open>f_to_float\<close> is
  \<open>to_float\<close> of an integer, \<open>f_div\<close>, \<open>f_mul\<close> and \<open>f_add\<close> are the rounded
  \<open>/\<close>, \<open>*\<close> and \<open>+\<close>, and \<open>f_to_int32\<close> is \<open>tf.to_int32\<close>. What is proved of a
  capacity holds for every such record, hence for the operations of the machine.
\<close>

record 'f float32 =
  f_to_float :: "int \<Rightarrow> 'f"
  f_div :: "'f \<Rightarrow> 'f \<Rightarrow> 'f"
  f_mul :: "'f \<Rightarrow> 'f \<Rightarrow> 'f"
  f_add :: "'f \<Rightarrow> 'f \<Rightarrow> 'f"
  f_to_int32 :: "'f \<Rightarrow> int"

text \<open>
  \<open>tf.to_int32\<close> of a finite \<open>float32\<close> value, given as the real number it denotes:
  the fraction is dropped, and a value outside the \<open>int32\<close> range gives the smallest
  \<open>int32\<close> (\<open>tf.to_int32(3e9)\<close> is \<open>-2147483648\<close>).
\<close>

definition to_int32 :: "real \<Rightarrow> int" where
  "to_int32 r =
     (let t = (if 0 \<le> r then \<lfloor>r\<rfloor> else \<lceil>r\<rceil>)
      in if - 2147483648 \<le> t \<and> t \<le> 2147483647 then t else - 2147483648)"

text \<open>
  The operations without rounding. They are those of \<open>float32\<close> wherever the operands
  and the exact result are \<open>float32\<close> values, which is the case at the inputs of the
  examples below (small integers and their multiples of \<open>1/8\<close>); no general result
  is stated for them.
\<close>

definition exact_float32 :: "real float32" where
  "exact_float32 =
     \<lparr> f_to_float = real_of_int, f_div = (/), f_mul = (*), f_add = (+),
       f_to_int32 = to_int32 \<rparr>"

subsection \<open>\<open>grouped_attention_multihead\<close>\<close>

text \<open>
  The model starts after the learned projections, on one entry of the
  \<open>batch * heads\<close> axis: \<open>q\<close> (\<open>[length_q, depth_qk]\<close>, already scaled), \<open>kv\<close>
  (\<open>[length_kv, depth_qk + depth_v]\<close>), \<open>q_pred_biased\<close> and \<open>m_pred_biased\<close>
  (\<open>[length, num_groups]\<close>) are the outputs of the \<open>dense\<close> layers and biases, whose
  weights are learned. The predictions are compared with each other and with \<open>0.0\<close>
  only, which is exact on \<open>float32\<close> values; requests are \<open>0.0\<close> or \<open>1.0\<close>.
  \<^verbatim>\<open>
    q_group = tf.argmax(q_pred_biased, axis=2)
    q_requests = tf.one_hot(q_group, num_groups, axis=-1)
    m_requests = to_float(tf.greater(m_pred_biased, 0.0))
    # include first memory position in all groups, to avoid division by zero.
    m_requests = tf.maximum(
        m_requests, tf.reshape(tf.one_hot([0], length_kv), [1, length_kv, 1]))
  \<close>
\<close>

definition grouped_q_requests :: "nat \<Rightarrow> real list list \<Rightarrow> real list list" where
  "grouped_q_requests num_groups q_pred_biased =
     (let q_group = map argmax q_pred_biased
      in map (\<lambda>g. one_hot g num_groups) q_group)"

definition grouped_m_requests :: "real list list \<Rightarrow> real list list" where
  "grouped_m_requests m_pred_biased =
     (let length_kv = length m_pred_biased;
          m_requests = map (map (\<lambda>s. if s > 0 then 1 else 0)) m_pred_biased
      in map2 (\<lambda>first row. map (\<lambda>r. max r first) row) (one_hot 0 length_kv) m_requests)"

text \<open>
  \<^verbatim>\<open>
    q_group_target_size = to_float(length_q) / to_float(num_groups)
    m_group_target_size = (
        to_float(length_kv) * memory_target_density /
        to_float(num_groups))
    capacity_q = tf.minimum(
        length_q,
        tf.to_int32(q_group_target_size * multiplicative_overhead +
                    additive_overhead))
    capacity_m = tf.minimum(
        length_kv,
        tf.to_int32(m_group_target_size * multiplicative_overhead +
                    additive_overhead))
  \<close>
  \<open>fl\<close> holds the floating-point operations; the hyperparameters are \<open>float32\<close>
  values. The result is the \<open>int32\<close> handed to \<open>TruncatingDispatcher\<close>, negative or not.
\<close>

definition capacity_q :: "'f float32 \<Rightarrow> nat \<Rightarrow> nat \<Rightarrow> 'f \<Rightarrow> 'f \<Rightarrow> int" where
  "capacity_q fl length_q num_groups multiplicative_overhead additive_overhead =
     (let q_group_target_size =
            f_div fl (f_to_float fl (int length_q)) (f_to_float fl (int num_groups))
      in min (int length_q)
           (f_to_int32 fl (f_add fl (f_mul fl q_group_target_size multiplicative_overhead)
                             additive_overhead)))"

definition capacity_m :: "'f float32 \<Rightarrow> nat \<Rightarrow> nat \<Rightarrow> 'f \<Rightarrow> 'f \<Rightarrow> 'f \<Rightarrow> int" where
  "capacity_m fl length_kv num_groups memory_target_density multiplicative_overhead
       additive_overhead =
     (let m_group_target_size =
            f_div fl (f_mul fl (f_to_float fl (int length_kv)) memory_target_density)
              (f_to_float fl (int num_groups))
      in min (int length_kv)
           (f_to_int32 fl (f_add fl (f_mul fl m_group_target_size multiplicative_overhead)
                             additive_overhead)))"

text \<open>
  \<^verbatim>\<open>
    q_dispatcher = expert_utils.TruncatingDispatcher(q_requests, capacity_q)
    m_dispatcher = expert_utils.TruncatingDispatcher(m_requests, capacity_m)
  \<close>
\<close>

definition grouped_q_dispatcher ::
  "'f float32 \<Rightarrow> nat \<Rightarrow> 'f \<Rightarrow> 'f \<Rightarrow> nat \<Rightarrow> real list list \<Rightarrow> TruncatingDispatcher option" where
  "grouped_q_dispatcher fl num_groups multiplicative_overhead additive_overhead length_q
       q_pred_biased =
     TruncatingDispatcher_init (grouped_q_requests num_groups q_pred_biased) num_groups
       (capacity_q fl length_q num_groups multiplicative_overhead additive_overhead)"

definition grouped_m_dispatcher ::
  "'f float32 \<Rightarrow> nat \<Rightarrow> 'f \<Rightarrow> 'f \<Rightarrow> 'f \<Rightarrow> nat \<Rightarrow> real list list
     \<Rightarrow> TruncatingDispatcher option" where
  "grouped_m_dispatcher fl num_groups memory_target_density multiplicative_overhead
       additive_overhead length_kv m_pred_biased =
     TruncatingDispatcher_init (grouped_m_requests m_pred_biased) num_groups
       (capacity_m fl length_kv num_groups memory_target_density multiplicative_overhead
          additive_overhead)"

text \<open>
  The two dispatched tensors, \<open>dispatched_q\<close> and \<open>dispatched_kv\<close>; \<open>length_q\<close> and
  \<open>length_kv\<close> are the second dimensions of the antecedents, which are those of \<open>q\<close>
  and \<open>kv\<close>. The model of the function ends here: what follows in the source (the
  split of \<open>dispatched_kv\<close> into keys and values along the last axis, the logits, the
  softmax in floating point, \<open>combine\<close> and the auxiliary losses) is not modelled.
  \<open>None\<close>: a capacity is negative.
  \<^verbatim>\<open>
    dispatched_q = q_dispatcher.dispatch(q)
    dispatched_kv = m_dispatcher.dispatch(kv)
    # dispatched_q: [batch * num_heads, num_groups, capacity_q, depth_qk]
    # dispatched_kv:
    #   [batch * num_heads, num_groups, capacity_m, depth_qk + depth_v]
  \<close>
\<close>

definition grouped_attention_multihead_dispatch ::
  "'f float32 \<Rightarrow> nat \<Rightarrow> nat \<Rightarrow> nat \<Rightarrow> 'f \<Rightarrow> 'f \<Rightarrow> 'f
     \<Rightarrow> real list list \<Rightarrow> real list list \<Rightarrow> real list list \<Rightarrow> real list list
     \<Rightarrow> (real list list list \<times> real list list list) option" where
  "grouped_attention_multihead_dispatch fl num_groups depth_qk depth_v memory_target_density
       multiplicative_overhead additive_overhead q kv q_pred_biased m_pred_biased =
     (let length_q = length q;
          length_kv = length kv
      in case grouped_q_dispatcher fl num_groups multiplicative_overhead additive_overhead
                length_q q_pred_biased of
           None \<Rightarrow> None
         | Some q_dispatcher \<Rightarrow>
             (case grouped_m_dispatcher fl num_groups memory_target_density
                     multiplicative_overhead additive_overhead length_kv m_pred_biased of
                None \<Rightarrow> None
              | Some m_dispatcher \<Rightarrow>
                  Some (dispatch q_dispatcher depth_qk q,
                        dispatch m_dispatcher (depth_qk + depth_v) kv)))"

subsection \<open>\<open>dot_product_batched_head\<close>\<close>

text \<open>
  \<open>tf.reduce_max\<close> over the \<open>batch * heads\<close> axis. (Over an empty axis TensorFlow
  returns minus infinity; \<open>add_summary_capacity\<close> has raised by then, and the \<open>0\<close> here
  is not used.)
\<close>

definition reduce_max :: "real list \<Rightarrow> real" where
  "reduce_max xs = (case xs of [] \<Rightarrow> 0 | x # ys \<Rightarrow> fold max ys x)"

text \<open>
  \<open>gates\<close> is \<open>[batch * heads, length, nb_buckets]\<close>, \<open>len\<close> its second dimension.
  \<^verbatim>\<open>
  def get_dispatcher(gates):
    length = common_layers.shape_list(gates)[1]
    # Count the number of ones per batch (and keep the max value)
    nb_elems_to_dispatch = tf.reduce_sum(gates, axis=[1, 2])
    nb_elems_to_dispatch = tf.reduce_max(nb_elems_to_dispatch)
    nb_elems_to_dispatch = tf.to_int32(nb_elems_to_dispatch)
    capacity = nb_elems_to_dispatch // nb_buckets * 2  # Capacity is hardcoded
    capacity = tf.minimum(length, capacity)
    tf.summary.scalar("dispatch_capacity", capacity, family="lsh")
    return expert_utils.TruncatingDispatcher(gates, capacity)
  \<close>
  The sum is taken over the reals. It is the \<open>float32\<close> sum of the program when the
  gates are zeros and ones with at most \<open>2 ^ 24 = 16777216\<close> ones in an entry of the
  batch (every partial sum is then an integer \<open>float32\<close> holds exactly); the results
  below are stated within this bound.
\<close>

definition dispatcher_capacity :: "nat \<Rightarrow> nat \<Rightarrow> real list list list \<Rightarrow> int" where
  "dispatcher_capacity nb_buckets len gates =
     (let nb_elems_to_dispatch = map (\<lambda>g. sum_list (map sum_list g)) gates;
          nb_elems_to_dispatch = reduce_max nb_elems_to_dispatch;
          nb_elems_to_dispatch = to_int32 nb_elems_to_dispatch;
          capacity = nb_elems_to_dispatch div int nb_buckets * 2
      in min (int len) capacity)"

text \<open>
  The source builds one dispatcher for the whole \<open>gates\<close> tensor; the model has one
  record for every entry of the \<open>batch * heads\<close> axis, all with the same capacity.
\<close>

definition get_dispatcher ::
  "nat \<Rightarrow> nat \<Rightarrow> real list list list \<Rightarrow> TruncatingDispatcher list option" where
  "get_dispatcher nb_buckets len gates =
     (let capacity = dispatcher_capacity nb_buckets len gates
      in if capacity < 0 then None
         else Some (map (\<lambda>g. \<lparr> td_requests = g, td_num_experts = nb_buckets,
                                 td_capacity = nat capacity \<rparr>)
                      gates))"

text \<open>
  \<^verbatim>\<open>
  def add_summary_capacity(x, prefix):
    # Monitor if capacity overflow
    x = x[0, ...]  # Take first batch/head
    x = tf.reduce_sum(x, axis=0)
    tf.summary.scalar(prefix + "_min", tf.reduce_min(x), family="lsh")
    tf.summary.scalar(prefix + "_max", tf.reduce_max(x), family="lsh")
    tf.summary.histogram(prefix + "capacity_distribution", x, family="lsh")
    for i in range(3):  # Show the first 3 buckets
      tf.summary.scalar("{}_{}".format(prefix, i), x[i], family="lsh")
  \<close>
  The summaries do not change the result, but the two slices can raise: with the
  static shapes of the model, \<open>x[0, ...]\<close> raises for an empty \<open>batch * heads\<close>
  axis and \<open>x[i]\<close> for fewer than three buckets, both while the graph is built.
\<close>

definition add_summary_capacity :: "nat \<Rightarrow> real list list list \<Rightarrow> error + unit" where
  "add_summary_capacity nb_buckets x =
     (if x = [] then Inl (ValueError ''slice index out of bounds'')
      else if nb_buckets < 3 then Inl (ValueError ''slice index out of bounds'')
      else Inr ())"

text \<open>
  The three dispatched tensors of \<open>dot_product_batched_head\<close>, each
  \<open>[batch * heads, nb_buckets, capacity, depth]\<close>. \<open>nb_buckets\<close>, \<open>length_q\<close> and
  \<open>length_k\<close> are the dimensions \<open>shape_list\<close> reads from the gates, \<open>depth_q\<close> and
  \<open>depth_v\<close> the last dimensions of \<open>q\<close> and \<open>v\<close>. The model of the function ends
  here: the bias, the kernel in floating point and \<open>combine\<close> are not modelled.
  \<open>Inr None\<close>: a capacity is negative.
  \<^verbatim>\<open>
  nb_buckets = common_layers.shape_list(gates_q)[-1]
  ...
  add_summary_capacity(gates_q, "q")
  add_summary_capacity(gates_k, "k")

  q_dispatcher = get_dispatcher(gates_q)
  k_dispatcher = get_dispatcher(gates_k)

  q = q_dispatcher.dispatch(q)
  k = k_dispatcher.dispatch(k)
  v = k_dispatcher.dispatch(v)
  \<close>
\<close>

definition dot_product_batched_head_dispatch ::
  "nat \<Rightarrow> nat \<Rightarrow> nat \<Rightarrow> nat \<Rightarrow> nat
     \<Rightarrow> real list list list \<Rightarrow> real list list list \<Rightarrow> real list list list
     \<Rightarrow> real list list list \<Rightarrow> real list list list
     \<Rightarrow> error + (real list list list list \<times> real list list list list
                 \<times> real list list list list) option" where
  "dot_product_batched_head_dispatch nb_buckets length_q length_k depth_q depth_v
       q k v gates_q gates_k =
     (case add_summary_capacity nb_buckets gates_q of
        Inl e \<Rightarrow> Inl e
      | Inr _ \<Rightarrow>
          (case add_summary_capacity nb_buckets gates_k of
             Inl e \<Rightarrow> Inl e
           | Inr _ \<Rightarrow>
               Inr (case get_dispatcher nb_buckets length_q gates_q of
                      None \<Rightarrow> None
                    | Some q_dispatcher \<Rightarrow>
                        (case get_dispatcher nb_buckets length_k gates_k of
                           None \<Rightarrow> None
                         | Some k_dispatcher \<Rightarrow>
                             Some (map2 (\<lambda>d x. dispatch d depth_q x) q_dispatcher q,
                                   map2 (\<lambda>d x. dispatch d depth_q x) k_dispatcher k,
                                   map2 (\<lambda>d x. dispatch d depth_v x) k_dispatcher v)))))"

subsection \<open>\<open>sparse_dot_product_attention_truncated\<close>\<close>

text \<open>
  \<open>get_gates_head\<close> on \<open>x\<close> of shape \<open>[batch, heads, length, depth]\<close>: head \<open>h\<close>
  of every batch entry goes through \<open>list_lsh[h]\<close>. (The source moves the head axis
  to the front and flattens batch and length before calling \<open>get_gates\<close>, which works
  row by row, and undoes both afterwards.)
  \<^verbatim>\<open>
    # Dispatch the first element to every gates to avoid empty buckets
    if add_first:
      gates = tf.maximum(gates,
                         tf.reshape(tf.one_hot([0], length), [1, 1, length, 1]))
  \<close>
\<close>

definition add_first_element :: "nat \<Rightarrow> real list list \<Rightarrow> real list list" where
  "add_first_element len gates =
     map2 (\<lambda>first row. map (\<lambda>r. max r first) row) (one_hot 0 len) gates"

definition get_gates_head ::
  "LshGating list \<Rightarrow> nat \<Rightarrow> real list list list list \<Rightarrow> bool \<Rightarrow> real list list list list" where
  "get_gates_head list_lsh len x add_first =
     (let gates = map (\<lambda>xb. map2 get_gates list_lsh xb) x
      in if add_first then map (map (add_first_element len)) gates else gates)"

text \<open>
  \<open>q\<close>, \<open>k\<close>, \<open>v\<close> are \<open>[batch, heads, length, depth]\<close>, \<open>list_lsh\<close> the gatings the
  function constructs, one for every head, and \<open>nb_buckets\<close> the last dimension of
  their gates. The result is the dispatched tensors of \<open>dot_product_batched_head\<close>.
  \<^verbatim>\<open>
  gates_q = get_gates_head(q)
  gates_k = get_gates_head(k, add_first=True)
  q, k, v, gates_q, gates_k = [
      combine_first_two_dimensions(t) for t in (q, k, v, gates_q, gates_k)
  ]
  v_out = dot_product_batched_head(q, k, v, gates_q, gates_k, mask_right)
  \<close>
\<close>

definition sparse_dot_product_attention_truncated_dispatch ::
  "LshGating list \<Rightarrow> nat \<Rightarrow> nat \<Rightarrow> nat
     \<Rightarrow> real list list list list \<Rightarrow> real list list list list \<Rightarrow> real list list list list
     \<Rightarrow> error + (real list list list list \<times> real list list list list
                 \<times> real list list list list) option" where
  "sparse_dot_product_attention_truncated_dispatch list_lsh nb_buckets len depth q k v =
     (let gates_q = get_gates_head list_lsh len q False;
          gates_k = get_gates_head list_lsh len k True
      in dot_product_batched_head_dispatch nb_buckets len len depth depth
           (concat q) (concat k) (concat v) (concat gates_q) (concat gates_k))"

text \<open>
  A tensor of the model, a list of matrices, has the shape \<open>[b, c, d]\<close>.
\<close>

definition has_shape :: "nat \<Rightarrow> nat \<Rightarrow> nat \<Rightarrow> real list list list \<Rightarrow> bool" where
  "has_shape b c d t \<longleftrightarrow>
     length t = b \<and> list_all (\<lambda>m. length m = c \<and> list_all (\<lambda>row. length row = d) m) t"

subsection \<open>Tensors with a shape, and the expert kernels\<close>

text \<open>
  The expert kernels branch on dimensions that are zero, so their tensors carry the
  shape: \<open>tvals\<close> holds the elements in row-major order.
\<close>

record tensor =
  tshape :: "nat list"
  tvals :: "real list"

definition tf_zeros :: "nat list \<Rightarrow> tensor" where
  "tf_zeros sh = \<lparr> tshape = sh, tvals = replicate (prod_list sh) 0 \<rparr>"

text \<open>\<open>tf.squeeze(t, axis)\<close> raises unless dimension \<open>axis\<close> exists and is \<open>1\<close>.\<close>

definition tf_squeeze :: "tensor \<Rightarrow> nat \<Rightarrow> error + tensor" where
  "tf_squeeze t axis =
     (if length (tshape t) \<le> axis
        then Inl (InvalidArgumentError ''Tried to squeeze dim index out of range'')
      else if tshape t ! axis \<noteq> 1
        then Inl (InvalidArgumentError ''Can not squeeze dim, expected a dimension of 1'')
      else Inr (t\<lparr> tshape := take axis (tshape t) @ drop (Suc axis) (tshape t) \<rparr>))"

definition tf_expand_dims :: "tensor \<Rightarrow> nat \<Rightarrow> tensor" where
  "tf_expand_dims t axis = t\<lparr> tshape := take axis (tshape t) @ 1 # drop axis (tshape t) \<rparr>"

definition tensor_map :: "(real \<Rightarrow> real) \<Rightarrow> tensor \<Rightarrow> tensor" where
  "tensor_map f t = t\<lparr> tvals := map f (tvals t) \<rparr>"

definition tensor_add :: "tensor \<Rightarrow> tensor \<Rightarrow> tensor" where
  "tensor_add a b = a\<lparr> tvals := map2 (+) (tvals a) (tvals b) \<rparr>"

text \<open>The rows of a tensor whose last two dimensions are \<open>[n, d]\<close> and whose others are \<open>1\<close>.\<close>

definition tensor_rows :: "tensor \<Rightarrow> real list list" where
  "tensor_rows t =
     (let d = last (tshape t); n = last (butlast (tshape t))
      in map (\<lambda>i. take d (drop (i * d) (tvals t))) [0..<n])"

text \<open>
  The helper nested in \<open>attention_bias_batch\<close>. Its name hides the module's
  \<open>to_float\<close>, so the call in its body is a call of itself: it squeezes axis \<open>1\<close>
  again and again, and each squeeze removes a dimension.
  \<^verbatim>\<open>
  # Convert to float first because of b/25387198.
  def to_float(bc):
    bc = tf.squeeze(bc, 1)
    bc = to_float(bc)
    return bc
  \<close>
\<close>

function attention_bias_batch_to_float :: "tensor \<Rightarrow> error + tensor" where
  "attention_bias_batch_to_float bc =
     (case tf_squeeze bc 1 of
        Inl e \<Rightarrow> Inl e
      | Inr bc' \<Rightarrow> attention_bias_batch_to_float bc')"
  by pat_completeness auto
termination
  by (relation "measure (\<lambda>bc. length (tshape bc))")
     (auto simp: tf_squeeze_def split: if_splits)

declare attention_bias_batch_to_float.simps [simp del]

text \<open>
  \<open>bc_h - bc_v\<close> with \<open>bc_h\<close> of shape \<open>[1, length_k]\<close> and \<open>bc_v\<close> of shape
  \<open>[length_q, 1]\<close>, broadcast to \<open>[length_q, length_k]\<close>.
\<close>

definition broadcast_sub :: "tensor \<Rightarrow> tensor \<Rightarrow> tensor" where
  "broadcast_sub bc_h bc_v =
     \<lparr> tshape = [length (tvals bc_v), length (tvals bc_h)],
       tvals = concat (map (\<lambda>a. map (\<lambda>b. b - a) (tvals bc_h)) (tvals bc_v)) \<rparr>"

text \<open>
  \<^verbatim>\<open>
  def attention_bias_batch(batch_coordinates_q,
                           batch_coordinates_k=None,
                           condition_fn=None):
    if batch_coordinates_k is None:
      batch_coordinates_k = batch_coordinates_q
    ...
    bc_v = tf.expand_dims(to_float(batch_coordinates_q), 1)
    bc_h = tf.expand_dims(to_float(batch_coordinates_k), 0)
    bias_batch = bc_h - bc_v
    bias_batch = condition_fn(bias_batch)
    bias_batch *= -1e9
    return bias_batch
  \<close>
\<close>

definition attention_bias_batch ::
  "(real \<Rightarrow> real) \<Rightarrow> tensor \<Rightarrow> tensor option \<Rightarrow> error + tensor" where
  "attention_bias_batch condition_fn batch_coordinates_q batch_coordinates_k =
     (let batch_coordinates_k =
            (case batch_coordinates_k of None \<Rightarrow> batch_coordinates_q | Some c \<Rightarrow> c)
      in case attention_bias_batch_to_float batch_coordinates_q of
           Inl e \<Rightarrow> Inl e
         | Inr fq \<Rightarrow>
             (let bc_v = tf_expand_dims fq 1
              in case attention_bias_batch_to_float batch_coordinates_k of
                   Inl e \<Rightarrow> Inl e
                 | Inr fk \<Rightarrow>
                     (let bc_h = tf_expand_dims fk 0;
                          bias_batch = broadcast_sub bc_h bc_v;
                          bias_batch = tensor_map condition_fn bias_batch
                      in Inr (tensor_map (\<lambda>b. b * (- 1000000000)) bias_batch))))"

text \<open>
  \<^verbatim>\<open>
  attention_bias_coordinates = functools.partial(
      attention_bias_batch,
      condition_fn=lambda bias: tf.minimum(1.0, tf.abs(bias)),
  )
  attention_bias_future = functools.partial(
      attention_bias_batch,
      condition_fn=lambda bias: tf.maximum(0.0, tf.minimum(1.0, bias)),
  )
  \<close>
\<close>

definition attention_bias_coordinates :: "tensor \<Rightarrow> tensor option \<Rightarrow> error + tensor" where
  "attention_bias_coordinates = attention_bias_batch (\<lambda>bias. min 1 \<bar>bias\<bar>)"

definition attention_bias_future :: "tensor \<Rightarrow> tensor option \<Rightarrow> error + tensor" where
  "attention_bias_future = attention_bias_batch (\<lambda>bias. max 0 (min 1 bias))"

text \<open>
  \<open>tf.cond(pred, true_fn, false_fn)\<close>. When a graph is built (\<open>graph\<close>), both
  functions are called to build their branches, \<open>true_fn\<close> first, and an exception of
  either propagates; the predicate selects the value when the graph runs. In eager
  execution only the selected function is called.
\<close>

definition tf_cond :: "bool \<Rightarrow> bool \<Rightarrow> error + 'a \<Rightarrow> error + 'a \<Rightarrow> error + 'a" where
  "tf_cond graph pred true_fn false_fn =
     (if graph
      then (case true_fn of
              Inl e \<Rightarrow> Inl e
            | Inr t \<Rightarrow> (case false_fn of
                           Inl e \<Rightarrow> Inl e
                         | Inr f \<Rightarrow> Inr (if pred then t else f)))
      else if pred then true_fn else false_fn)"

record BatchInfo =
  bi_coordinates :: tensor
  bi_order :: "tensor option"

text \<open>
  \<open>expert_dot_product\<close>, with \<open>q\<close>, \<open>k\<close>, \<open>v\<close> of shapes \<open>[length_q, depth_k]\<close>,
  \<open>[length_k, depth_k]\<close>, \<open>[length_k, depth_v]\<close>. The mask is created before the
  \<open>tf.cond\<close>.
  \<^verbatim>\<open>
  length_q = common_layers.shape_list(q)[0]
  length_k = common_layers.shape_list(k)[0]
  depth_v = v.get_shape().as_list()[-1]
  # Create the mask
  bias = attention_bias_coordinates(info_q.coordinates, info_k.coordinates)
  if info_k.order is not None:
    bias += attention_bias_future(info_q.order, info_k.order)
  # Restore batch and head dimension
  q, k, v = [tf.expand_dims(tf.expand_dims(t, 0), 0) for t in (q, k, v)]
  def is_zero():
    zeros = tf.zeros(shape=[1, 1, length_q, depth_v], dtype=tf.float32)
    zeros = tf.Print(zeros, [length_k, length_q], "length_k/length_q: ")
    return zeros
  def is_not_zero():
    return dot_product_attention(q, k, v, bias=bias, make_image_summary=False)
  v_out = tf.cond(
      tf.logical_or(tf.equal(length_q, 0), tf.equal(length_k, 0)),
      is_zero,
      is_not_zero,
  )
  # Remove batch and head dimension
  v_out = tf.squeeze(v_out, axis=0)
  v_out = tf.squeeze(v_out, axis=0)
  return v_out
  \<close>
\<close>

definition expert_bias :: "BatchInfo \<Rightarrow> BatchInfo \<Rightarrow> error + tensor" where
  "expert_bias info_q info_k =
     (case attention_bias_coordinates (bi_coordinates info_q) (Some (bi_coordinates info_k)) of
        Inl e \<Rightarrow> Inl e
      | Inr bias \<Rightarrow>
          (case bi_order info_k of
             None \<Rightarrow> Inr bias
           | Some order_k \<Rightarrow>
               (case bi_order info_q of
                  None \<Rightarrow> Inl (ValueError ''None values not supported.'')
                | Some order_q \<Rightarrow>
                    (case attention_bias_future order_q (Some order_k) of
                       Inl e \<Rightarrow> Inl e
                     | Inr future \<Rightarrow> Inr (tensor_add bias future)))))"

definition expert_dot_product ::
  "bool \<Rightarrow> tensor \<Rightarrow> tensor \<Rightarrow> tensor \<Rightarrow> BatchInfo \<Rightarrow> BatchInfo \<Rightarrow> error + tensor" where
  "expert_dot_product graph q k v info_q info_k =
     (let length_q = hd (tshape q);
          length_k = hd (tshape k);
          depth_v = last (tshape v)
      in case expert_bias info_q info_k of
           Inl e \<Rightarrow> Inl e
         | Inr bias \<Rightarrow>
             (let q4 = tf_expand_dims (tf_expand_dims q 0) 0;
                  k4 = tf_expand_dims (tf_expand_dims k 0) 0;
                  v4 = tf_expand_dims (tf_expand_dims v 0) 0;
                  is_zero = Inr (tf_zeros [1, 1, length_q, depth_v]);
                  is_not_zero =
                    Inr \<lparr> tshape = [1, 1, length_q, depth_v],
                          tvals = concat (dot_product_attention depth_v (tensor_rows q4)
                                    (tensor_rows k4) (tensor_rows v4)
                                    (Some (tensor_rows bias))) \<rparr>
              in case tf_cond graph (length_q = 0 \<or> length_k = 0) is_zero is_not_zero of
                   Inl e \<Rightarrow> Inl e
                 | Inr v_out \<Rightarrow>
                     (case tf_squeeze v_out 0 of
                        Inl e \<Rightarrow> Inl e
                      | Inr v_out \<Rightarrow> tf_squeeze v_out 0)))"

text \<open>
  \<open>self_attention_expert\<close>, with \<open>x\<close> of shape \<open>[batch, depth]\<close> and
  \<open>batch_coordinate\<close> of shape \<open>[batch, 1]\<close>. \<open>attend x bias_batch\<close> stands for the
  rest of \<open>length_not_null\<close>: the masks added to \<open>bias_batch\<close> and the call of
  \<open>multihead_attention\<close>, whose weights are learned.
  \<^verbatim>\<open>
  depth = x.get_shape().as_list()[-1]
  length = common_layers.shape_list(batch_coordinate)[0]
  ...
  def length_not_null(x, batch_coordinate):
    # Mask between the sequences (not used if map_ids is used)
    bias_batch = attention_bias_coordinates(batch_coordinate)
    ...
  out = tf.cond(
      tf.equal(length, 0),
      lambda: tf.zeros(shape=[0, depth], dtype=tf.float32, name="empty_out"),
      lambda: length_not_null(x, batch_coordinate),
  )
  return out
  \<close>
\<close>

definition self_attention_expert ::
  "bool \<Rightarrow> (tensor \<Rightarrow> tensor \<Rightarrow> error + tensor) \<Rightarrow> tensor \<Rightarrow> tensor \<Rightarrow> error + tensor" where
  "self_attention_expert graph attend x batch_coordinate =
     (let depth = last (tshape x);
          len = hd (tshape batch_coordinate);
          length_not_null =
            (case attention_bias_coordinates batch_coordinate None of
               Inl e \<Rightarrow> Inl e
             | Inr bias_batch \<Rightarrow> attend x bias_batch)
      in tf_cond graph (len = 0) (Inr (tf_zeros [0, depth])) length_not_null)"

section \<open>Properties\<close>

subsection \<open>The bias sentinel\<close>

text \<open>
  Claim C9. \<open>large_compatible_negative\<close> returns \<open>tf.float16.min\<close> for the dtype
  \<open>float16\<close> and \<open>-1e9\<close> for every other dtype. The former is the largest finite
  binary16 magnitude, negated, so it is representable; \<open>-1e9\<close> is beyond that range.
\<close>

theorem large_compatible_negative_sentinel:
  "large_compatible_negative tensor_type =
     (if tensor_type = DT_float16 then float16_min else - 1000000000)
   \<and> \<bar>float16_min\<bar> = float16_largest
   \<and> float16_largest < \<bar>- 1000000000 :: real\<bar>"
  by (simp add: large_compatible_negative_def float16_min_def float16_largest_def)

subsection \<open>LSH gating\<close>

text \<open>
  Claim C10. Constructing \<open>LshGating\<close> with \<open>nb_replicat\<close> other than \<open>1\<close> fails on
  the assertion, and with \<open>nb_replicat = 1\<close> the construction goes through and records
  \<open>2 ^ nb_hyperplanes\<close> buckets.
\<close>

theorem LshGating_init_replicat:
  "(nb_replicat \<noteq> 1 \<longrightarrow>
      LshGating_init vector dpth nb_hyperplanes nb_replicat trainable = Inl AssertionError)
   \<and> (nb_replicat = 1 \<longrightarrow>
      (\<exists>self. LshGating_init vector dpth nb_hyperplanes nb_replicat trainable = Inr self
         \<and> self_nb_replicat self = 1
         \<and> self_nb_buckets self = 2 ^ nb_hyperplanes))"
  by (simp add: LshGating_init_def)

theorem LshGating_init_replicat_witness:
  "LshGating_init [[1], [- 1]] 2 1 2 False = Inl AssertionError
   \<and> (\<exists>self. LshGating_init [[1], [- 1]] 2 1 1 False = Inr self
         \<and> self_nb_replicat self = 1 \<and> self_nb_buckets self = 2 ^ 1)"
  using LshGating_init_replicat [of 2 "[[1], [- 1]]" 2 1 False]
    LshGating_init_replicat [of 1 "[[1], [- 1]]" 2 1 False]
  by simp

lemma argmax_less: "xs \<noteq> [] \<Longrightarrow> argmax xs < length xs"
  by (induction xs) auto

lemma argmax_max: "j < length xs \<Longrightarrow> xs ! j \<le> xs ! argmax xs"
proof (induction xs arbitrary: j)
  case Nil
  then show ?case by simp
next
  case (Cons x xs)
  show ?case
  proof (cases "xs = []")
    case True
    with Cons.prems show ?thesis by simp
  next
    case False
    show ?thesis
    proof (cases j)
      case 0
      then show ?thesis by auto
    next
      case (Suc k)
      with Cons.prems have "k < length xs" by simp
      from Cons.IH [OF this] Suc False show ?thesis by auto
    qed
  qed
qed

lemma length_one_hot: "length (one_hot i n) = n"
  by (simp add: one_hot_def)

lemma one_hot_nth: "j < n \<Longrightarrow> one_hot i n ! j = (if j = i then 1 else 0)"
  by (simp add: one_hot_def)

lemma sum_list_one_hot: "sum_list (one_hot i n) = (if i < n then 1 else 0)"
proof -
  have "sum_list (map (\<lambda>j. if j = i then 1 else 0) [0..<n]) = (if i < n then (1::real) else 0)"
    by (induction n) auto
  then show ?thesis by (simp add: one_hot_def)
qed

lemma filter_one_hot: "i < n \<Longrightarrow> filter (\<lambda>v. v \<noteq> 0) (one_hot i n) = [1]"
proof -
  assume "i < n"
  moreover have "filter (\<lambda>v. v \<noteq> 0) (map (\<lambda>j. if j = i then 1 else 0) [0..<n])
      = (if i < n then [1::real] else [])"
    by (induction n) auto
  ultimately show ?thesis by (simp add: one_hot_def)
qed

text \<open>Below \<open>2 ^ h\<close> an index has at most \<open>h\<close> binary digits, so \<open>zfill\<close> pads to exactly \<open>h\<close>.\<close>

lemma length_bin_digits: "i < 2 ^ h \<Longrightarrow> 0 < h \<Longrightarrow> length (bin_digits i) \<le> h"
proof (induction i arbitrary: h rule: bin_digits.induct)
  case (1 i)
  show ?case
  proof (cases "i < 2")
    case True
    with 1(3) show ?thesis by (simp add: bin_digits.simps [of i])
  next
    case False
    then obtain h' where h: "h = Suc h'" using 1(3) by (cases h) auto
    from False 1(2) h have "0 < h'" by (cases h') auto
    moreover from 1(2) h have "i div 2 < 2 ^ h'" by auto
    ultimately have "length (bin_digits (i div 2)) \<le> h'" using 1(1) [OF False] by blast
    with False h show ?thesis by (simp add: bin_digits.simps [of i])
  qed
qed

lemma length_idx_to_bits: "i < 2 ^ h \<Longrightarrow> 0 < h \<Longrightarrow> length (idx_to_bits h i) = h"
  using length_bin_digits [of i h] by (simp add: idx_to_bits_def zfill_def)

lemma set_idx_to_bits: "set (idx_to_bits h i) \<subseteq> {- 1, 1}"
  by (auto simp: idx_to_bits_def)

lemma length_get_gates: "length (get_gates self x) = length x"
  by (simp add: get_gates_def Let_def matmul_def matmul_transpose_b_def)

lemma get_gates_nth:
  "i < length x \<Longrightarrow>
   get_gates self x ! i = one_hot (argmax (lsh_scores self (x ! i))) (self_nb_buckets self)"
  by (simp add: get_gates_def Let_def matmul_def matmul_transpose_b_def lsh_scores_def
      lsh_signs_def comp_def)

lemma lsh_scores_nth:
  "b < length (self_t_group self) \<Longrightarrow>
   lsh_scores self row ! b
     = dot (lsh_signs self row) (self_t_group self ! b) / real (self_nb_hyperplanes self)"
  by (simp add: lsh_scores_def)

text \<open>
  Claim C7. For a gating built with \<open>nb_replicat = 1\<close> and at least one hyperplane,
  \<open>get_gates\<close> returns one row per token; \<open>t_group\<close> is the fixed
  \<open>2 ^ nb_hyperplanes\<close> by \<open>nb_hyperplanes\<close> matrix of \<open>\<plusminus>1\<close>; the score of
  bucket \<open>b\<close> is the product of the signs of the token's projections with row \<open>b\<close>
  of that matrix, divided by \<open>nb_hyperplanes\<close>; the row of a token is the one-hot
  vector of the \<open>argmax\<close> of its scores, a bucket below \<open>2 ^ nb_hyperplanes\<close> of
  maximal score; so exactly one entry of the row is non-zero, and it is \<open>1\<close>.
\<close>

theorem get_gates_one_bucket_per_token:
  assumes init: "LshGating_init vector dpth nb_hyperplanes nb_replicat trainable = Inr self"
    and pos: "0 < nb_hyperplanes"
  shows "length (get_gates self x) = length x
    \<and> length (self_t_group self) = 2 ^ nb_hyperplanes
    \<and> (\<forall>b < 2 ^ nb_hyperplanes.
          length (self_t_group self ! b) = nb_hyperplanes
          \<and> set (self_t_group self ! b) \<subseteq> {- 1, 1})
    \<and> (\<forall>i < length x.
          argmax (lsh_scores self (x ! i)) < 2 ^ nb_hyperplanes
          \<and> get_gates self x ! i
              = one_hot (argmax (lsh_scores self (x ! i))) (2 ^ nb_hyperplanes)
          \<and> (\<forall>b < 2 ^ nb_hyperplanes.
                lsh_scores self (x ! i) ! b
                  = dot (map (\<lambda>col. sgn (dot (x ! i) col))
                           (columns nb_hyperplanes vector))
                        (idx_to_bits nb_hyperplanes b) / real nb_hyperplanes
                \<and> lsh_scores self (x ! i) ! b
                  \<le> lsh_scores self (x ! i) ! argmax (lsh_scores self (x ! i)))
          \<and> filter (\<lambda>v. v \<noteq> 0) (get_gates self x ! i) = [1])"
proof -
  from init have r1: "nb_replicat = 1"
    by (auto simp: LshGating_init_def split: if_splits)
  from init r1 have self:
    "self_nb_hyperplanes self = nb_hyperplanes" "self_nb_buckets self = 2 ^ nb_hyperplanes"
    "self_t_vectors self = vector" "self_nb_replicat self = 1"
    "self_t_group self = map (idx_to_bits nb_hyperplanes) [0..<2 ^ nb_hyperplanes]"
    by (auto simp: LshGating_init_def)
  have len_group: "length (self_t_group self) = 2 ^ nb_hyperplanes"
    by (simp add: self)
  have group: "length (self_t_group self ! b) = nb_hyperplanes
      \<and> set (self_t_group self ! b) \<subseteq> {- 1, 1}" if "b < 2 ^ nb_hyperplanes" for b
    using that pos length_idx_to_bits [of b nb_hyperplanes] set_idx_to_bits [of nb_hyperplanes b]
    by (simp add: self)
  have len_scores: "length (lsh_scores self row) = 2 ^ nb_hyperplanes" for row
    by (simp add: lsh_scores_def self)
  have token: "argmax (lsh_scores self (x ! i)) < 2 ^ nb_hyperplanes
      \<and> get_gates self x ! i = one_hot (argmax (lsh_scores self (x ! i))) (2 ^ nb_hyperplanes)
      \<and> (\<forall>b < 2 ^ nb_hyperplanes.
            lsh_scores self (x ! i) ! b
              = dot (map (\<lambda>col. sgn (dot (x ! i) col)) (columns nb_hyperplanes vector))
                    (idx_to_bits nb_hyperplanes b) / real nb_hyperplanes
            \<and> lsh_scores self (x ! i) ! b
              \<le> lsh_scores self (x ! i) ! argmax (lsh_scores self (x ! i)))
      \<and> filter (\<lambda>v. v \<noteq> 0) (get_gates self x ! i) = [1]" if i: "i < length x" for i
  proof -
    let ?s = "lsh_scores self (x ! i)"
    have ne: "?s \<noteq> []" using len_scores [of "x ! i"] by auto
    have a: "argmax ?s < 2 ^ nb_hyperplanes"
      using argmax_less [OF ne] len_scores [of "x ! i"] by simp
    have g: "get_gates self x ! i = one_hot (argmax ?s) (2 ^ nb_hyperplanes)"
      using get_gates_nth [OF i, of self] by (simp add: self)
    have m: "?s ! b = dot (map (\<lambda>col. sgn (dot (x ! i) col)) (columns nb_hyperplanes vector))
                    (idx_to_bits nb_hyperplanes b) / real nb_hyperplanes
             \<and> ?s ! b \<le> ?s ! argmax ?s" if "b < 2 ^ nb_hyperplanes" for b
      using that argmax_max [of b ?s] len_scores [of "x ! i"]
      by (simp add: lsh_scores_nth len_group lsh_signs_def self)
    have f: "filter (\<lambda>v. v \<noteq> 0) (get_gates self x ! i) = [1]"
      using filter_one_hot [OF a] g by simp
    from a g m f show ?thesis by blast
  qed
  from length_get_gates [of self x] len_group group token show ?thesis by blast
qed

theorem get_gates_one_bucket_per_token_witness:
  "LshGating_init [[1], [- 1]] 2 1 1 False
     = Inr \<lparr> self_depth = 2, self_nb_hyperplanes = 1, self_nb_buckets = 2,
             self_nb_replicat = 1, self_trainable = False,
             self_t_vectors = [[1], [- 1]], self_t_group = [[- 1], [1]] \<rparr>
   \<and> 0 < (1::nat)
   \<and> get_gates \<lparr> self_depth = 2, self_nb_hyperplanes = 1, self_nb_buckets = 2,
             self_nb_replicat = 1, self_trainable = False,
             self_t_vectors = [[1], [- 1]], self_t_group = [[- 1], [1]] \<rparr> [[3, 1], [0, 2]]
       = [[0, 1], [1, 0]]
   \<and> filter (\<lambda>v. v \<noteq> 0)
        (get_gates \<lparr> self_depth = 2, self_nb_hyperplanes = 1, self_nb_buckets = 2,
             self_nb_replicat = 1, self_trainable = False,
             self_t_vectors = [[1], [- 1]], self_t_group = [[- 1], [1]] \<rparr> [[3, 1], [0, 2]] ! 0)
       = [1]"
proof -
  let ?g = "\<lparr> self_depth = 2, self_nb_hyperplanes = 1, self_nb_buckets = 2,
             self_nb_replicat = 1, self_trainable = False,
             self_t_vectors = [[1], [- 1]], self_t_group = [[- 1::real], [1]] \<rparr>"
  have upt2: "[0..<2] = [0, Suc 0]" by code_simp
  have b0: "bin_digits 0 = ''0''" by (simp add: bin_digits.simps [of 0])
  have b1: "bin_digits (Suc 0) = ''1''" by (simp add: bin_digits.simps [of "Suc 0"])
  have bits: "map (idx_to_bits (Suc 0)) [0..<2] = [[- 1], [1]]"
    unfolding upt2 by (simp add: idx_to_bits_def zfill_def b0 b1)
  have init: "LshGating_init [[1], [- 1]] 2 1 1 False = Inr ?g"
    by (simp add: LshGating_init_def bits)
  have pos: "0 < (1::nat)" by simp
  have gates: "get_gates ?g [[3, 1], [0, 2]] = [[0, 1], [1, 0]]"
    by (simp add: get_gates_def matmul_def matmul_transpose_b_def columns_def column_def
        dot_def one_hot_def upt2)
  have "0 < length [[3, 1], [0, 2::real]]" by simp
  with get_gates_one_bucket_per_token [OF init pos, of "[[3, 1], [0, 2]]"]
  have "filter (\<lambda>v. v \<noteq> 0) (get_gates ?g [[3, 1], [0, 2]] ! 0) = [1]" by blast
  with init pos gates show ?thesis by simp
qed

subsection \<open>Configuration errors\<close>

text \<open>
  Claim C5. The docstrings of \<open>multihead_attention\<close> and
  \<open>grouped_attention_multihead\<close> promise \<open>ValueError\<close> "if the key depth or value
  depth are not divisible by the number of attention heads". With \<open>num_heads = 0\<close> a
  key depth of \<open>5\<close> is not divisible by the number of heads, and neither function
  raises \<open>ValueError\<close>: the \<open>%\<close> of the check is not guarded and raises
  \<open>ZeroDivisionError\<close>.
\<close>

theorem divisibility_check_zero_heads:
  "\<not> (0::int) dvd 5
   \<and> multihead_attention_checks 5 4 0
        \<lparr> has_layer_collection = False, has_cache = False, vars_3d = False,
          has_recurrent_memory = False, has_memory_antecedent = False,
          has_chunk_number = False \<rparr> = Inl ZeroDivisionError
   \<and> grouped_attention_multihead_depths 5 4 0 = Inl ZeroDivisionError"
  by (simp add: multihead_attention_checks_def grouped_attention_multihead_depths_def py_mod_def)

text \<open>
  The other configuration errors are raised as documented. With a non-zero
  \<open>num_heads\<close>, \<open>multihead_attention\<close> and \<open>grouped_attention_multihead\<close> raise
  \<open>ValueError\<close> with the key-depth message when \<open>total_key_depth\<close> is not divisible
  by \<open>num_heads\<close>, and with the value-depth message when only \<open>total_value_depth\<close>
  is not; neither passes its checks unless \<open>num_heads\<close> is non-zero and divides both
  depths. \<open>dot_product_attention_relative\<close> raises \<open>ValueError\<close> when
  \<open>max_relative_position\<close> is \<open>None\<close> or \<open>0\<close>, and
  \<open>multihead_self_attention_reduced\<close> raises \<open>ValueError\<close> when \<open>factor\<close> is
  \<open>None\<close> or \<open>0\<close> or \<open>multihead_params\<close> is \<open>None\<close> or empty.
\<close>
lemma configuration_checks:
  "(num_heads \<noteq> 0 \<and> \<not> num_heads dvd total_key_depth \<longrightarrow>
      multihead_attention_checks total_key_depth total_value_depth num_heads opts
        = Inl (ValueError key_depth_message)
      \<and> grouped_attention_multihead_depths total_key_depth total_value_depth num_heads
        = Inl (ValueError key_depth_message))
   \<and> (num_heads \<noteq> 0 \<and> num_heads dvd total_key_depth \<and> \<not> num_heads dvd total_value_depth \<longrightarrow>
      multihead_attention_checks total_key_depth total_value_depth num_heads opts
        = Inl (ValueError value_depth_message)
      \<and> grouped_attention_multihead_depths total_key_depth total_value_depth num_heads
        = Inl (ValueError value_depth_message))
   \<and> (num_heads = 0 \<longrightarrow>
      multihead_attention_checks total_key_depth total_value_depth num_heads opts
        = Inl ZeroDivisionError
      \<and> grouped_attention_multihead_depths total_key_depth total_value_depth num_heads
        = Inl ZeroDivisionError)
   \<and> (multihead_attention_checks total_key_depth total_value_depth num_heads opts = Inr ()
        \<or> (\<exists>d. grouped_attention_multihead_depths total_key_depth total_value_depth num_heads
              = Inr d) \<longrightarrow>
      num_heads \<noteq> 0 \<and> num_heads dvd total_key_depth \<and> num_heads dvd total_value_depth)
   \<and> (max_relative_position = None \<or> max_relative_position = Some 0 \<longrightarrow>
      dot_product_attention_relative_check max_relative_position
        = Inl (ValueError max_relative_position_message))
   \<and> (factor = None \<or> factor = Some 0 \<or> multihead_params = None \<or> multihead_params = Some [] \<longrightarrow>
      multihead_self_attention_reduced_checks has_memory factor multihead_params
          nonlinearity reduction_type
        = Inl (ValueError ''factor and multihead_params should be set''))"
proof -
  have a: "multihead_attention_checks total_key_depth total_value_depth num_heads opts
        = Inl (ValueError key_depth_message)
      \<and> grouped_attention_multihead_depths total_key_depth total_value_depth num_heads
        = Inl (ValueError key_depth_message)"
    if "num_heads \<noteq> 0" "\<not> num_heads dvd total_key_depth"
    using that
    by (simp add: multihead_attention_checks_def grouped_attention_multihead_depths_def
        py_mod_def dvd_eq_mod_eq_0)
  have b: "multihead_attention_checks total_key_depth total_value_depth num_heads opts
        = Inl (ValueError value_depth_message)
      \<and> grouped_attention_multihead_depths total_key_depth total_value_depth num_heads
        = Inl (ValueError value_depth_message)"
    if "num_heads \<noteq> 0" "num_heads dvd total_key_depth" "\<not> num_heads dvd total_value_depth"
    using that
    by (simp add: multihead_attention_checks_def grouped_attention_multihead_depths_def
        py_mod_def dvd_eq_mod_eq_0)
  have c: "multihead_attention_checks total_key_depth total_value_depth num_heads opts
        = Inl ZeroDivisionError
      \<and> grouped_attention_multihead_depths total_key_depth total_value_depth num_heads
        = Inl ZeroDivisionError"
    if "num_heads = 0"
    using that
    by (simp add: multihead_attention_checks_def grouped_attention_multihead_depths_def
        py_mod_def)
  have d: "num_heads \<noteq> 0 \<and> num_heads dvd total_key_depth \<and> num_heads dvd total_value_depth"
    if "multihead_attention_checks total_key_depth total_value_depth num_heads opts = Inr ()
        \<or> (\<exists>d. grouped_attention_multihead_depths total_key_depth total_value_depth num_heads
              = Inr d)"
    using that a b c by (metis Inl_Inr_False)
  have e: "dot_product_attention_relative_check max_relative_position
        = Inl (ValueError max_relative_position_message)"
    if "max_relative_position = None \<or> max_relative_position = Some 0"
    using that by (auto simp: dot_product_attention_relative_check_def py_not_int_def)
  have f: "multihead_self_attention_reduced_checks has_memory factor multihead_params
          nonlinearity reduction_type
        = Inl (ValueError ''factor and multihead_params should be set'')"
    if "factor = None \<or> factor = Some 0 \<or> multihead_params = None \<or> multihead_params = Some []"
    using that
    by (auto simp: multihead_self_attention_reduced_checks_def py_not_int_def py_not_dict_def)
  from a b c d e f show ?thesis by blast
qed

lemma configuration_checks_example:
  "multihead_attention_checks 5 4 2
        \<lparr> has_layer_collection = False, has_cache = False, vars_3d = False,
          has_recurrent_memory = False, has_memory_antecedent = False,
          has_chunk_number = False \<rparr> = Inl (ValueError key_depth_message)
   \<and> grouped_attention_multihead_depths 4 5 2 = Inl (ValueError value_depth_message)
   \<and> grouped_attention_multihead_depths 4 5 0 = Inl ZeroDivisionError
   \<and> dot_product_attention_relative_check (Some 0)
        = Inl (ValueError max_relative_position_message)
   \<and> multihead_self_attention_reduced_checks False None (Some [(''num_heads'', 4::int)])
          ''none'' ''conv''
        = Inl (ValueError ''factor and multihead_params should be set'')"
  using configuration_checks [of 2 5 4
        "\<lparr> has_layer_collection = False, has_cache = False, vars_3d = False,
          has_recurrent_memory = False, has_memory_antecedent = False,
          has_chunk_number = False \<rparr>" "Some 0" None "Some [(''num_heads'', 4::int)]"
        False "''none''" "''conv''"]
    configuration_checks [of 2 4 5 opts "Some 0" None "None :: (string \<times> int) list option"]
    configuration_checks [of 0 4 5 opts "Some 0" None "None :: (string \<times> int) list option"]
  by simp

subsection \<open>Expert kernels\<close>

text \<open>
  The helper never returns a tensor: every call squeezes axis \<open>1\<close> once more, and a
  tensor has finitely many dimensions. So \<open>attention_bias_batch\<close> raises on every
  input, and with it both expert kernels: \<open>expert_dot_product\<close> always, and
  \<open>self_attention_expert\<close> whenever the branch for a non-empty batch is built.
\<close>

lemma attention_bias_batch_to_float_raises: "\<exists>e. attention_bias_batch_to_float bc = Inl e"
proof (induction bc rule: attention_bias_batch_to_float.induct)
  case (1 bc)
  show ?case
  proof (cases "tf_squeeze bc 1")
    case (Inl e)
    then show ?thesis by (simp add: attention_bias_batch_to_float.simps [of bc])
  next
    case (Inr bc')
    with 1 show ?thesis by (simp add: attention_bias_batch_to_float.simps [of bc])
  qed
qed

lemma attention_bias_batch_raises:
  "\<exists>e. attention_bias_batch condition_fn batch_coordinates_q batch_coordinates_k = Inl e"
  using attention_bias_batch_to_float_raises [of batch_coordinates_q]
  by (auto simp: attention_bias_batch_def Let_def)

lemma expert_dot_product_raises:
  "\<exists>e. expert_dot_product graph q k v info_q info_k = Inl e"
  using attention_bias_batch_raises [of "\<lambda>bias. min 1 \<bar>bias\<bar>" "bi_coordinates info_q"
      "Some (bi_coordinates info_k)"]
  by (auto simp: expert_dot_product_def expert_bias_def attention_bias_coordinates_def Let_def)

lemma self_attention_expert_graph_raises:
  "\<exists>e. self_attention_expert True attend x batch_coordinate = Inl e"
  using attention_bias_batch_raises [of "\<lambda>bias. min 1 \<bar>bias\<bar>" batch_coordinate None]
  by (auto simp: self_attention_expert_def attention_bias_coordinates_def tf_cond_def Let_def)

lemma self_attention_expert_eager_empty:
  "hd (tshape batch_coordinate) = 0 \<Longrightarrow>
   self_attention_expert False attend x batch_coordinate
     = Inr (tf_zeros [0, last (tshape x)])"
  by (simp add: self_attention_expert_def tf_cond_def Let_def)

text \<open>
  Claim C6 says that \<open>expert_dot_product\<close> returns zeros of shape
  \<open>[length_q, depth_v]\<close> when a length is zero. The code does not get that far: for
  empty \<open>q\<close>, \<open>k\<close>, \<open>v\<close> (and any execution mode) the mask built before the
  \<open>tf.cond\<close> raises, in the helper of \<open>attention_bias_batch\<close> that calls itself.
  The claimed result would have been \<open>tf_zeros [0, 3]\<close>.
\<close>

theorem expert_dot_product_empty_raises:
  "expert_dot_product graph
       \<lparr> tshape = [0, 2], tvals = [] \<rparr> \<lparr> tshape = [0, 2], tvals = [] \<rparr>
       \<lparr> tshape = [0, 3], tvals = [] \<rparr>
       \<lparr> bi_coordinates = \<lparr> tshape = [0, 1], tvals = [] \<rparr>, bi_order = None \<rparr>
       \<lparr> bi_coordinates = \<lparr> tshape = [0, 1], tvals = [] \<rparr>, bi_order = None \<rparr>
     = Inl (InvalidArgumentError ''Tried to squeeze dim index out of range'')
   \<and> tf_zeros [0, 3] = \<lparr> tshape = [0, 3], tvals = [] \<rparr>"
  by (simp add: expert_dot_product_def expert_bias_def attention_bias_coordinates_def
      attention_bias_batch_def attention_bias_batch_to_float.simps tf_squeeze_def tf_zeros_def)

subsection \<open>Dispatch and combine\<close>

lemma in_take_single: "x \<in> set (take k [y]) \<longleftrightarrow> 0 < k \<and> x = y"
  by (cases k) auto

lemma in_take_filter_upt:
  "j \<in> set (take c (filter P [0..<n])) \<longleftrightarrow> j < n \<and> P j \<and> length (filter P [0..<j]) < c"
proof (induction n)
  case 0
  then show ?case by simp
next
  case (Suc n)
  show ?case
  proof (cases "j < n")
    case True
    with Suc show ?thesis by (auto simp: in_take_single)
  next
    case False
    note nlt = this
    show ?thesis
    proof (cases "j = n")
      case True
      have "n \<notin> set (take c (filter P [0..<n]))"
        using in_set_takeD [of n c "filter P [0..<n]"] by auto
      with True show ?thesis by (auto simp: in_take_single)
    next
      case False
      with nlt have "n < j" by simp
      moreover have "j \<notin> set (take c (filter P [0..<n]))"
        using in_set_takeD [of j c "filter P [0..<n]"] nlt by auto
      ultimately show ?thesis by (auto simp: in_take_single)
    qed
  qed
qed

lemma distinct_expert_tokens: "distinct (expert_tokens d e)"
  by (simp add: expert_tokens_def)

lemma length_expert_slots: "length (expert_slots d e) = td_capacity d"
  by (simp add: expert_slots_def Let_def)

lemma sum_list_select:
  "distinct xs \<Longrightarrow>
   sum_list (map (\<lambda>i. if i = j then c else 0) xs) = (if j \<in> set xs then c else (0::real))"
  by (induction xs) auto

lemma sum_list_select_upt:
  "sum_list (map (\<lambda>e. if e = a then f e else 0) [0..<n]) = (if a < n then f a else (0::real))"
  by (induction n) auto

text \<open>What the scatter of one bucket gives token \<open>j\<close> when the bucket's rows are the dispatched ones.\<close>

lemma scatter_bucket:
  "sum_list (map (\<lambda>slot. if fst slot = Some j then w * snd slot ! c else 0)
      (zip (expert_slots d e)
         (map (\<lambda>s. case s of Some i \<Rightarrow> inp ! i | None \<Rightarrow> replicate depth 0) (expert_slots d e))))
   = (if j \<in> set (take (td_capacity d) (expert_tokens d e)) then w * inp ! j ! c else (0::real))"
proof -
  let ?kept = "take (td_capacity d) (expert_tokens d e)"
  let ?h = "\<lambda>s. case s of Some i \<Rightarrow> inp ! i | None \<Rightarrow> replicate depth (0::real)"
  have z: "zip xs (map ?h xs) = map (\<lambda>s. (s, ?h s)) xs" for xs :: "nat option list"
    by (induction xs) auto
  have "sum_list (map (\<lambda>slot. if fst slot = Some j then w * snd slot ! c else 0)
          (zip (expert_slots d e) (map ?h (expert_slots d e))))
      = sum_list (map (\<lambda>s. if s = Some j then w * ?h s ! c else 0) (expert_slots d e))"
    by (simp add: z comp_def cong: if_cong)
  also have "\<dots> = sum_list (map (\<lambda>i. if i = j then w * inp ! j ! c else 0) ?kept)"
  proof -
    let ?F = "\<lambda>s. if s = Some j then w * ?h s ! c else 0"
    have a: "sum_list (map ?F (map Some ?kept))
        = sum_list (map (\<lambda>i. if i = j then w * inp ! j ! c else 0) ?kept)"
      by (rule arg_cong [where f = sum_list]) auto
    have b: "sum_list (map ?F (replicate n None)) = 0" for n
      by (induction n) auto
    have "sum_list (map ?F (expert_slots d e))
        = sum_list (map ?F (map Some ?kept))
          + sum_list (map ?F (replicate (td_capacity d - length ?kept) None))"
      unfolding expert_slots_def Let_def map_append sum_list_append ..
    with a b show ?thesis by simp
  qed
  also have "\<dots> = (if j \<in> set ?kept then w * inp ! j ! c else 0)"
    using sum_list_select [of ?kept j "w * inp ! j ! c"] distinct_expert_tokens [of d e]
    by simp
  finally show ?thesis .
qed

lemma combine_dispatch_entry:
  assumes "j < length (td_requests d)" "c < depth"
  shows "combine d depth (dispatch d depth inp) ! j ! c
    = sum_list (map (\<lambda>e. if j \<in> set (take (td_capacity d) (expert_tokens d e))
                           then td_requests d ! j ! e * inp ! j ! c else 0)
        [0..<td_num_experts d])"
proof -
  have "combine d depth (dispatch d depth inp) ! j ! c
      = sum_list (map (\<lambda>e. sum_list (map (\<lambda>slot.
            if fst slot = Some j then td_requests d ! j ! e * snd slot ! c else 0)
          (zip (expert_slots d e) (dispatch d depth inp ! e)))) [0..<td_num_experts d])"
    using assms by (simp add: combine_def cong: if_cong)
  also have "\<dots> = sum_list (map (\<lambda>e. if j \<in> set (take (td_capacity d) (expert_tokens d e))
                           then td_requests d ! j ! e * inp ! j ! c else 0)
        [0..<td_num_experts d])"
  proof (rule arg_cong [where f = sum_list], rule map_cong [OF refl])
    fix e assume "e \<in> set [0..<td_num_experts d]"
    then have "e < td_num_experts d" by simp
    then have "dispatch d depth inp ! e
        = map (\<lambda>s. case s of Some i \<Rightarrow> inp ! i | None \<Rightarrow> replicate depth 0) (expert_slots d e)"
      by (simp add: dispatch_def)
    then show "sum_list (map (\<lambda>slot.
            if fst slot = Some j then td_requests d ! j ! e * snd slot ! c else 0)
          (zip (expert_slots d e) (dispatch d depth inp ! e)))
        = (if j \<in> set (take (td_capacity d) (expert_tokens d e))
                           then td_requests d ! j ! e * inp ! j ! c else 0)"
      using scatter_bucket [where j = j and w = "td_requests d ! j ! e" and c = c and d = d
          and e = e and inp = inp and depth = depth]
      by simp
  qed
  finally show ?thesis .
qed


lemma length_combine: "length (combine d depth x) = length (td_requests d)"
  by (simp add: combine_def)

lemma length_combine_row:
  "j < length (td_requests d) \<Longrightarrow> length (combine d depth x ! j) = depth"
  by (simp add: combine_def)

text \<open>
  Claim C1. For a one-hot gating (\<open>assignment\<close> names the bucket of every token) and any
  capacity, \<open>dispatch\<close> followed by \<open>combine\<close> gives back every token that has
  fewer than \<open>capacity\<close> earlier tokens in its bucket, and the zero vector for the
  tokens truncated past the capacity. With the identity gating (token \<open>j\<close> alone in
  bucket \<open>j\<close>) and a capacity of at least one it gives back the batch.
\<close>

theorem dispatch_combine_round_trip:
  assumes len: "length inp = length assignment"
    and rows: "\<forall>row \<in> set inp. length row = depth"
    and buckets: "\<forall>b \<in> set assignment. b < nb_buckets"
  shows "combine \<lparr> td_requests = map (\<lambda>b. one_hot b nb_buckets) assignment,
                   td_num_experts = nb_buckets, td_capacity = capacity \<rparr> depth
           (dispatch \<lparr> td_requests = map (\<lambda>b. one_hot b nb_buckets) assignment,
                       td_num_experts = nb_buckets, td_capacity = capacity \<rparr> depth inp)
         = map (\<lambda>j. if length (filter (\<lambda>i. assignment ! i = assignment ! j) [0..<j]) < capacity
                      then inp ! j else replicate depth 0)
             [0..<length inp]
    \<and> (assignment = [0..<length inp] \<and> 1 \<le> capacity \<longrightarrow>
         combine \<lparr> td_requests = map (\<lambda>b. one_hot b nb_buckets) assignment,
                   td_num_experts = nb_buckets, td_capacity = capacity \<rparr> depth
           (dispatch \<lparr> td_requests = map (\<lambda>b. one_hot b nb_buckets) assignment,
                       td_num_experts = nb_buckets, td_capacity = capacity \<rparr> depth inp)
         = inp)"
proof -
  let ?d = "\<lparr> td_requests = map (\<lambda>b. one_hot b nb_buckets) assignment,
              td_num_experts = nb_buckets, td_capacity = capacity \<rparr>"
  let ?n = "length inp"
  let ?kept = "\<lambda>j. length (filter (\<lambda>i. assignment ! i = assignment ! j) [0..<j]) < capacity"
  let ?out = "combine ?d depth (dispatch ?d depth inp)"
  have req: "td_requests ?d ! i ! e = (if e = assignment ! i then 1 else 0)"
    if "i < ?n" "e < nb_buckets" for i e
    using that len by (simp add: one_hot_nth)
  have member: "j \<in> set (take capacity (expert_tokens ?d e)) \<longleftrightarrow> assignment ! j = e \<and> ?kept j"
    if j: "j < ?n" and e: "e < nb_buckets" for j e
  proof -
    have "filter (\<lambda>i. td_requests ?d ! i ! e \<noteq> 0) [0..<j]
        = filter (\<lambda>i. assignment ! i = e) [0..<j]"
    proof (rule filter_cong [OF refl])
      fix i assume "i \<in> set [0..<j]"
      with j have "i < ?n" by simp
      from req [OF this e] show "(td_requests ?d ! i ! e \<noteq> 0) = (assignment ! i = e)" by auto
    qed
    moreover have "(td_requests ?d ! j ! e \<noteq> 0) = (assignment ! j = e)"
      using req [OF j e] by auto
    ultimately show ?thesis
      using j len
        in_take_filter_upt [of j capacity "\<lambda>i. td_requests ?d ! i ! e \<noteq> 0" "length assignment"]
      by (auto simp: expert_tokens_def)
  qed
  have entry: "?out ! j ! c = (if ?kept j then inp ! j ! c else 0)"
    if j: "j < ?n" and c: "c < depth" for j c
  proof -
    from j len buckets have a: "assignment ! j < nb_buckets" by simp
    have "?out ! j ! c
        = sum_list (map (\<lambda>e. if j \<in> set (take (td_capacity ?d) (expert_tokens ?d e))
                               then td_requests ?d ! j ! e * inp ! j ! c else 0)
            [0..<td_num_experts ?d])"
      using combine_dispatch_entry [of j ?d c depth inp] j c len by simp
    also have "\<dots>
        = sum_list (map (\<lambda>e. if j \<in> set (take (td_capacity ?d) (expert_tokens ?d e))
                               then td_requests ?d ! j ! e * inp ! j ! c else 0)
            [0..<nb_buckets])"
      by simp
    also have "\<dots> = sum_list (map (\<lambda>e. if e = assignment ! j
                               then (if ?kept j then inp ! j ! c else 0) else 0)
            [0..<nb_buckets])"
    proof (rule arg_cong [where f = sum_list], rule map_cong [OF refl])
      fix e assume "e \<in> set [0..<nb_buckets]"
      then have e: "e < nb_buckets" by simp
      have "td_capacity ?d = capacity" by simp
      with member [OF j e] req [OF j e]
      show "(if j \<in> set (take (td_capacity ?d) (expert_tokens ?d e))
             then td_requests ?d ! j ! e * inp ! j ! c else 0)
         = (if e = assignment ! j then (if ?kept j then inp ! j ! c else 0) else 0)"
        by auto
    qed
    also have "\<dots> = (if ?kept j then inp ! j ! c else 0)"
      using a by (simp add: sum_list_select_upt)
    finally show ?thesis .
  qed
  have main: "?out = map (\<lambda>j. if ?kept j then inp ! j else replicate depth 0) [0..<?n]"
  proof (rule nth_equalityI)
    show "length ?out = length (map (\<lambda>j. if ?kept j then inp ! j else replicate depth 0) [0..<?n])"
      using len by (simp add: length_combine)
  next
    fix j assume "j < length ?out"
    then have j: "j < ?n" using len by (simp add: length_combine)
    have "?out ! j = (if ?kept j then inp ! j else replicate depth 0)"
    proof (rule nth_equalityI)
      show "length (?out ! j) = length (if ?kept j then inp ! j else replicate depth 0)"
        using j rows len by (simp add: length_combine_row)
    next
      fix c assume "c < length (?out ! j)"
      then have c: "c < depth" using j len by (simp add: length_combine_row)
      from entry [OF j c] c
      show "?out ! j ! c = (if ?kept j then inp ! j else replicate depth 0) ! c" by simp
    qed
    with j show "?out ! j = map (\<lambda>j. if ?kept j then inp ! j else replicate depth 0) [0..<?n] ! j"
      by simp
  qed
  have ident: "?out = inp" if id: "assignment = [0..<?n]" and cap: "1 \<le> capacity"
  proof -
    have "?kept j" if "j < ?n" for j
    proof -
      have "filter (\<lambda>i. assignment ! i = assignment ! j) [0..<j] = []"
        using that id by (auto simp: filter_empty_conv)
      with cap show ?thesis by simp
    qed
    then have "map (\<lambda>j. if ?kept j then inp ! j else replicate depth 0) [0..<?n] = map (\<lambda>j. inp ! j) [0..<?n]"
      by (intro map_cong) auto
    with main show ?thesis by (simp add: map_nth)
  qed
  from main ident show ?thesis by blast
qed


lemma upt_10: "[0..<10] = [0, 1, 2, 3, 4, 5, 6, 7, 8, 9::nat]"
  by code_simp

lemma upt_3: "[0..<3] = [0, 1, 2::nat]"
  by code_simp

theorem dispatch_combine_round_trip_witness:
  "combine \<lparr> td_requests = map (\<lambda>b. one_hot b 4) [0, 1, 2, 3, 0, 1, 2, 3, 0, 1],
             td_num_experts = 4, td_capacity = 3 \<rparr> 1
     (dispatch \<lparr> td_requests = map (\<lambda>b. one_hot b 4) [0, 1, 2, 3, 0, 1, 2, 3, 0, 1],
                 td_num_experts = 4, td_capacity = 3 \<rparr> 1
        [[10], [11], [12], [13], [14], [15], [16], [17], [18], [19]])
     = [[10], [11], [12], [13], [14], [15], [16], [17], [18], [19]]
   \<and> combine \<lparr> td_requests = map (\<lambda>b. one_hot b 4) [0, 1, 2, 3, 0, 1, 2, 3, 0, 1],
             td_num_experts = 4, td_capacity = 2 \<rparr> 1
     (dispatch \<lparr> td_requests = map (\<lambda>b. one_hot b 4) [0, 1, 2, 3, 0, 1, 2, 3, 0, 1],
                 td_num_experts = 4, td_capacity = 2 \<rparr> 1
        [[10], [11], [12], [13], [14], [15], [16], [17], [18], [19]])
     = [[10], [11], [12], [13], [14], [15], [16], [17], [0], [0]]
   \<and> combine \<lparr> td_requests = map (\<lambda>b. one_hot b 3) [0, 1, 2],
             td_num_experts = 3, td_capacity = 1 \<rparr> 2
     (dispatch \<lparr> td_requests = map (\<lambda>b. one_hot b 3) [0, 1, 2],
                 td_num_experts = 3, td_capacity = 1 \<rparr> 2 [[1, 2], [3, 4], [5, 6]])
     = [[1, 2], [3, 4], [5, 6]]"
proof -
  let ?a = "[0, 1, 2, 3, 0, 1, 2, 3, 0, 1::nat]"
  let ?inp = "[[10], [11], [12], [13], [14], [15], [16], [17], [18], [19::real]]"
  have h1: "length ?inp = length ?a" by simp
  have h2: "\<forall>row \<in> set ?inp. length row = 1" by simp
  have h3: "\<forall>b \<in> set ?a. b < 4" by simp
  have g1: "length [[1, 2], [3, 4], [5, 6::real]] = length [0, 1, 2::nat]" by simp
  have g2: "\<forall>row \<in> set [[1, 2], [3, 4], [5, 6::real]]. length row = 2" by simp
  have g3: "\<forall>b \<in> set [0, 1, 2::nat]. b < 3" by simp
  from dispatch_combine_round_trip [OF h1 h2 h3, of 3]
    dispatch_combine_round_trip [OF h1 h2 h3, of 2]
    dispatch_combine_round_trip [OF g1 g2 g3, of 1]
  show ?thesis by (simp add: upt_10 upt_3)
qed

subsection \<open>Shapes\<close>

lemma set_expert_tokens: "j \<in> set (expert_tokens d e) \<Longrightarrow> j < length (td_requests d)"
  by (simp add: expert_tokens_def)

lemma dispatch_shape:
  assumes "length inp = length (td_requests d)" "\<forall>row \<in> set inp. length row = depth"
  shows "length (dispatch d depth inp) = td_num_experts d
    \<and> (\<forall>bucket \<in> set (dispatch d depth inp).
          length bucket = td_capacity d \<and> (\<forall>row \<in> set bucket. length row = depth))"
proof -
  have "length row = depth"
    if "row \<in> set (map (\<lambda>s. case s of Some j \<Rightarrow> inp ! j | None \<Rightarrow> replicate depth 0)
                      (expert_slots d e))" for row e
  proof -
    from that obtain s where s: "s \<in> set (expert_slots d e)"
      and row: "row = (case s of Some j \<Rightarrow> inp ! j | None \<Rightarrow> replicate depth 0)"
      by auto
    show ?thesis
    proof (cases s)
      case None
      with row show ?thesis by simp
    next
      case (Some j)
      with s have "j \<in> set (take (td_capacity d) (expert_tokens d e))"
        by (auto simp: expert_slots_def Let_def)
      then have "j < length inp"
        using set_expert_tokens [of j d e] assms(1) by (auto dest: in_set_takeD)
      with assms(2) Some row show ?thesis by simp
    qed
  qed
  then show ?thesis
    by (auto simp: dispatch_def length_expert_slots)
qed

lemma dispatch_has_shape:
  assumes "length inp = length (td_requests d)" "\<forall>row \<in> set inp. length row = depth"
  shows "has_shape (td_num_experts d) (td_capacity d) depth (dispatch d depth inp)"
  using dispatch_shape [OF assms] by (simp add: has_shape_def list_all_iff)

text \<open>The dispatchers of a batch, each applied to its entry of the batch.\<close>

lemma dispatch_all_has_shape:
  assumes "\<forall>g \<in> set gates. length g = len"
    and "\<forall>x \<in> set xs. length x = len \<and> (\<forall>row \<in> set x. length row = depth)"
  shows "list_all (has_shape n c depth)
    (map2 (\<lambda>d x. dispatch d depth x)
       (map (\<lambda>g. \<lparr> td_requests = g, td_num_experts = n, td_capacity = c \<rparr>) gates) xs)"
proof -
  have "has_shape n c depth t"
    if "t \<in> set (map2 (\<lambda>d x. dispatch d depth x)
       (map (\<lambda>g. \<lparr> td_requests = g, td_num_experts = n, td_capacity = c \<rparr>) gates) xs)" for t
  proof -
    from that obtain d x where
      z: "(d, x) \<in> set (zip (map (\<lambda>g. \<lparr> td_requests = g, td_num_experts = n,
                                        td_capacity = c \<rparr>) gates) xs)"
      and t: "t = dispatch d depth x" by auto
    from z have "d \<in> set (map (\<lambda>g. \<lparr> td_requests = g, td_num_experts = n,
                                     td_capacity = c \<rparr>) gates)" "x \<in> set xs"
      by (auto dest: set_zip_leftD set_zip_rightD)
    then obtain g where g: "g \<in> set gates"
      and d: "d = \<lparr> td_requests = g, td_num_experts = n, td_capacity = c \<rparr>"
      and x: "x \<in> set xs" by auto
    from g x assms have "length x = length (td_requests d)" "\<forall>row \<in> set x. length row = depth"
      by (simp_all add: d)
    from dispatch_has_shape [OF this] show ?thesis by (simp add: t d)
  qed
  then show ?thesis by (simp add: list_all_iff)
qed

lemma to_int32_of_nat: "n \<le> 2147483647 \<Longrightarrow> to_int32 (real n) = int n"
  by (simp add: to_int32_def)

lemma reduce_max_const: "xs \<noteq> [] \<Longrightarrow> \<forall>x \<in> set xs. x = c \<Longrightarrow> reduce_max xs = c"
proof -
  have "\<forall>x \<in> set ys. x = c \<Longrightarrow> fold max ys c = c" for ys :: "real list"
    by (induction ys) auto
  then show "xs \<noteq> [] \<Longrightarrow> \<forall>x \<in> set xs. x = c \<Longrightarrow> reduce_max xs = c"
    by (cases xs) (auto simp: reduce_max_def)
qed

text \<open>A slice of gates whose rows are one-hot counts one element per token.\<close>

lemma sum_one_hot_rows:
  "\<forall>row \<in> set g. \<exists>b < n. row = one_hot b n \<Longrightarrow> sum_list (map sum_list g) = real (length g)"
  by (induction g) (auto simp: sum_list_one_hot)

lemma one_hot_0_Suc: "one_hot 0 (Suc n) = 1 # replicate n 0"
proof (rule nth_equalityI)
  show "length (one_hot 0 (Suc n)) = length (1 # replicate n (0::real))"
    by (simp add: length_one_hot)
next
  fix i assume "i < length (one_hot 0 (Suc n))"
  then have "i < Suc n" by (simp add: length_one_hot)
  then show "one_hot 0 (Suc n) ! i = (1 # replicate n 0) ! i"
    by (cases i) (simp_all add: one_hot_nth)
qed

lemma max_zero_one_hot: "map (\<lambda>r. max r 0) (one_hot b n) = one_hot b n"
  by (rule nth_equalityI) (simp_all add: length_one_hot one_hot_nth)

lemma max_one_one_hot: "map (\<lambda>r. max r 1) (one_hot b n) = replicate n 1"
  by (rule nth_equalityI) (simp_all add: length_one_hot one_hot_nth)

lemma length_add_first_element: "length (add_first_element len g) = min len (length g)"
  by (simp add: add_first_element_def length_one_hot)

text \<open>Adding the first element to every bucket adds \<open>n - 1\<close> to the count of a non-empty slice.\<close>

lemma sum_add_first_element:
  assumes "\<forall>row \<in> set g. \<exists>b < n. row = one_hot b n"
  shows "sum_list (map sum_list (add_first_element (length g) g))
    = (if g = [] then 0 else real (length g - 1 + n))"
proof (cases g)
  case Nil
  then show ?thesis by (simp add: add_first_element_def)
next
  case (Cons r rs)
  with assms obtain b where b: "b < n" "r = one_hot b n" by auto
  from Cons assms have rs: "\<forall>row \<in> set rs. \<exists>b < n. row = one_hot b n" by simp
  have rest: "map2 (\<lambda>first row. map (\<lambda>r. max r first) row) (replicate m 0) rs' = rs'"
    if "\<forall>row \<in> set rs'. \<exists>b < n. row = one_hot b n" "m = length rs'" for rs' m
    using that
  proof (induction rs' arbitrary: m)
    case Nil
    then show ?case by simp
  next
    case (Cons a rs')
    then obtain m' where "m = Suc m'" "m' = length rs'" by (cases m) auto
    with Cons show ?case by (auto simp: max_zero_one_hot)
  qed
  have "add_first_element (length g) g = replicate n 1 # rs"
    using Cons b rest [OF rs refl]
    by (simp add: add_first_element_def one_hot_0_Suc max_one_one_hot)
  with Cons sum_one_hot_rows [OF rs] show ?thesis
    by (simp add: sum_list_replicate)
qed

lemma dispatcher_capacity_one_hot:
  assumes "gates \<noteq> []"
    and "\<forall>g \<in> set gates. length g = len \<and> (\<forall>row \<in> set g. \<exists>b < n. row = one_hot b n)"
    and "len \<le> 2147483647"
  shows "dispatcher_capacity n len gates = min (int len) (int len div int n * 2)"
proof -
  have "\<forall>c \<in> set (map (\<lambda>g. sum_list (map sum_list g)) gates). c = real len"
    using assms(2) sum_one_hot_rows [of _ n] by auto
  with assms(1) have "reduce_max (map (\<lambda>g. sum_list (map sum_list g)) gates) = real len"
    by (intro reduce_max_const) auto
  then show ?thesis by (simp add: dispatcher_capacity_def to_int32_of_nat [OF assms(3)])
qed

lemma dispatcher_capacity_add_first:
  assumes "gates \<noteq> []"
    and "\<forall>g \<in> set gates. length g = len \<and> (\<forall>row \<in> set g. \<exists>b < n. row = one_hot b n)"
    and "len + n \<le> 2147483647"
  shows "dispatcher_capacity n len (map (add_first_element len) gates)
    = min (int len) (int (len + n - 1) div int n * 2)"
proof -
  let ?c = "if len = 0 then 0 else real (len - 1 + n)"
  have "\<forall>c \<in> set (map (\<lambda>g. sum_list (map sum_list g)) (map (add_first_element len) gates)).
      c = ?c"
  proof
    fix c assume "c \<in> set (map (\<lambda>g. sum_list (map sum_list g))
      (map (add_first_element len) gates))"
    then obtain g where g: "g \<in> set gates"
      and c: "c = sum_list (map sum_list (add_first_element len g))" by auto
    from g assms(2) have "length g = len" "\<forall>row \<in> set g. \<exists>b < n. row = one_hot b n" by auto
    with sum_add_first_element [of g n] c show "c = ?c" by auto
  qed
  with assms(1)
  have "reduce_max (map (\<lambda>g. sum_list (map sum_list g)) (map (add_first_element len) gates)) = ?c"
    by (intro reduce_max_const) auto
  then have "dispatcher_capacity n len (map (add_first_element len) gates)
      = min (int len) (to_int32 ?c div int n * 2)"
    by (simp add: dispatcher_capacity_def)
  also have "\<dots> = min (int len) (int (len + n - 1) div int n * 2)"
  proof (cases "len = 0")
    case True
    have "0 \<le> int (n - 1) div int n * 2" by (simp flip: zdiv_int)
    with True show ?thesis by (simp add: to_int32_def)
  next
    case False
    then have eq: "len - 1 + n = len + n - 1" by simp
    from assms(3) have "len - 1 + n \<le> 2147483647" by simp
    from to_int32_of_nat [OF this] False eq show ?thesis by simp
  qed
  finally show ?thesis .
qed

lemma get_gates_rows:
  assumes "LshGating_init vector dpth nb_hyperplanes nb_replicat trainable = Inr self"
  shows "\<forall>row \<in> set (get_gates self x). \<exists>b < 2 ^ nb_hyperplanes. row = one_hot b (2 ^ nb_hyperplanes)"
proof
  fix row assume "row \<in> set (get_gates self x)"
  then obtain i where i: "i < length x" and row: "row = get_gates self x ! i"
    by (auto simp: in_set_conv_nth length_get_gates)
  from assms have self: "self_nb_buckets self = 2 ^ nb_hyperplanes"
    "length (self_t_group self) = 2 ^ nb_hyperplanes"
    by (auto simp: LshGating_init_def split: if_splits)
  have "lsh_scores self (x ! i) \<noteq> []"
    using self(2) by (auto simp: lsh_scores_def)
  from argmax_less [OF this] self(2)
  have "argmax (lsh_scores self (x ! i)) < 2 ^ nb_hyperplanes" by (simp add: lsh_scores_def)
  with row get_gates_nth [OF i, of self] self(1)
  show "\<exists>b < 2 ^ nb_hyperplanes. row = one_hot b (2 ^ nb_hyperplanes)" by auto
qed

lemma get_gates_head_slices:
  assumes lsh: "\<forall>self \<in> set list_lsh. \<exists>vector dpth nb_replicat trainable.
        LshGating_init vector dpth nb_hyperplanes nb_replicat trainable = Inr self"
    and len: "\<forall>xb \<in> set x. \<forall>xh \<in> set xb. length xh = len"
  shows "\<forall>g \<in> set (concat (map (\<lambda>xb. map2 get_gates list_lsh xb) x)).
      length g = len
      \<and> (\<forall>row \<in> set g. \<exists>b < 2 ^ nb_hyperplanes. row = one_hot b (2 ^ nb_hyperplanes))"
proof
  fix g assume "g \<in> set (concat (map (\<lambda>xb. map2 get_gates list_lsh xb) x))"
  then obtain xb self xh where xb: "xb \<in> set x" and z: "(self, xh) \<in> set (zip list_lsh xb)"
    and g: "g = get_gates self xh" by auto
  from z have "self \<in> set list_lsh" "xh \<in> set xb" by (auto dest: set_zip_leftD set_zip_rightD)
  with lsh len xb obtain vector dpth nb_replicat trainable where
    "LshGating_init vector dpth nb_hyperplanes nb_replicat trainable = Inr self"
    and "length xh = len" by blast
  with g get_gates_rows [of vector dpth nb_hyperplanes nb_replicat trainable self xh]
  show "length g = len
      \<and> (\<forall>row \<in> set g. \<exists>b < 2 ^ nb_hyperplanes. row = one_hot b (2 ^ nb_hyperplanes))"
    by (simp add: length_get_gates)
qed

lemma get_gates_head_nonempty:
  assumes "x \<noteq> []" "list_lsh \<noteq> []" "\<forall>xb \<in> set x. length xb = length list_lsh"
  shows "concat (map (\<lambda>xb. map2 get_gates list_lsh xb) x) \<noteq> []"
proof -
  from assms(1) obtain xb xs where x: "x = xb # xs" by (cases x) auto
  with assms(3) have "length xb = length list_lsh" by simp
  with assms(2) have "map2 get_gates list_lsh xb \<noteq> []" by (cases list_lsh; cases xb) auto
  with x show ?thesis by simp
qed

lemma length_concat_gates:
  assumes "\<forall>xb \<in> set x. length xb = length list_lsh"
  shows "length (concat (map (\<lambda>xb. map2 get_gates list_lsh xb) x)) = length (concat x)"
  using assms by (induction x) simp_all

lemma length_concat_const:
  "\<forall>xb \<in> set x. length xb = n \<Longrightarrow> length (concat x) = length x * n"
  by (induction x) simp_all

text \<open>The dispatch stage of \<open>grouped_attention_multihead\<close>.\<close>

lemma grouped_dispatch_shapes:
  assumes "length q_pred_biased = length q" "\<forall>row \<in> set q. length row = depth_qk"
    and "length m_pred_biased = length kv" "\<forall>row \<in> set kv. length row = depth_qk + depth_v"
    and "0 \<le> capacity_q fl (length q) num_groups multiplicative_overhead additive_overhead"
    and "0 \<le> capacity_m fl (length kv) num_groups memory_target_density
               multiplicative_overhead additive_overhead"
  shows "\<exists>dispatched_q dispatched_kv.
      grouped_attention_multihead_dispatch fl num_groups depth_qk depth_v memory_target_density
          multiplicative_overhead additive_overhead q kv q_pred_biased m_pred_biased
        = Some (dispatched_q, dispatched_kv)
      \<and> has_shape num_groups
          (nat (capacity_q fl (length q) num_groups multiplicative_overhead additive_overhead))
          depth_qk dispatched_q
      \<and> has_shape num_groups
          (nat (capacity_m fl (length kv) num_groups memory_target_density
                  multiplicative_overhead additive_overhead))
          (depth_qk + depth_v) dispatched_kv"
proof -
  let ?cq = "capacity_q fl (length q) num_groups multiplicative_overhead additive_overhead"
  let ?cm = "capacity_m fl (length kv) num_groups memory_target_density
               multiplicative_overhead additive_overhead"
  let ?qd = "\<lparr> td_requests = grouped_q_requests num_groups q_pred_biased,
               td_num_experts = num_groups, td_capacity = nat ?cq \<rparr>"
  let ?md = "\<lparr> td_requests = grouped_m_requests m_pred_biased,
               td_num_experts = num_groups, td_capacity = nat ?cm \<rparr>"
  have lq: "length q = length (td_requests ?qd)"
    using assms(1) by (simp add: grouped_q_requests_def)
  have lm: "length kv = length (td_requests ?md)"
    using assms(3) by (simp add: grouped_m_requests_def length_one_hot)
  have eq: "grouped_attention_multihead_dispatch fl num_groups depth_qk depth_v
          memory_target_density multiplicative_overhead additive_overhead q kv q_pred_biased
          m_pred_biased
        = Some (dispatch ?qd depth_qk q, dispatch ?md (depth_qk + depth_v) kv)"
    using assms(5,6)
    by (simp add: grouped_attention_multihead_dispatch_def grouped_q_dispatcher_def
        grouped_m_dispatcher_def TruncatingDispatcher_init_def)
  from dispatch_has_shape [OF lq assms(2)] dispatch_has_shape [OF lm assms(4)] eq
  show ?thesis by simp
qed

lemma grouped_dispatch_negative:
  assumes "capacity_q fl (length q) num_groups multiplicative_overhead additive_overhead < 0
    \<or> capacity_m fl (length kv) num_groups memory_target_density
         multiplicative_overhead additive_overhead < 0"
  shows "grouped_attention_multihead_dispatch fl num_groups depth_qk depth_v
      memory_target_density multiplicative_overhead additive_overhead q kv q_pred_biased
      m_pred_biased = None"
  using assms
  by (auto simp: grouped_attention_multihead_dispatch_def grouped_q_dispatcher_def
      grouped_m_dispatcher_def TruncatingDispatcher_init_def Let_def
      split: option.splits if_splits)

text \<open>
  The dispatch stage of \<open>sparse_dot_product_attention_truncated\<close> for gatings built
  by the constructor with at least two hyperplanes (four buckets; with fewer than
  three buckets \<open>add_summary_capacity\<close> raises) and a batch that is not empty.
\<close>

lemma lsh_dispatch_shapes:
  assumes lsh: "\<forall>self \<in> set list_lsh. \<exists>vector dpth nb_replicat trainable.
        LshGating_init vector dpth nb_hyperplanes nb_replicat trainable = Inr self"
    and hyp: "2 \<le> nb_hyperplanes" "len + 2 ^ nb_hyperplanes \<le> 16777216"
    and heads: "list_lsh \<noteq> []"
    and batch: "q \<noteq> []" "length k = length q" "length v = length q"
    and shq: "list_all (has_shape (length list_lsh) len depth) q"
    and shk: "list_all (has_shape (length list_lsh) len depth) k"
    and shv: "list_all (has_shape (length list_lsh) len depth) v"
  shows "\<exists>dq dk dv.
      sparse_dot_product_attention_truncated_dispatch list_lsh (2 ^ nb_hyperplanes) len depth
          q k v = Inr (Some (dq, dk, dv))
      \<and> length dq = length q * length list_lsh
      \<and> length dk = length q * length list_lsh
      \<and> length dv = length q * length list_lsh
      \<and> list_all (has_shape (2 ^ nb_hyperplanes)
            (nat (min (int len) (int len div int (2 ^ nb_hyperplanes) * 2))) depth) dq
      \<and> list_all (has_shape (2 ^ nb_hyperplanes)
            (nat (min (int len)
                    (int (len + 2 ^ nb_hyperplanes - 1) div int (2 ^ nb_hyperplanes) * 2)))
            depth) dk
      \<and> list_all (has_shape (2 ^ nb_hyperplanes)
            (nat (min (int len)
                    (int (len + 2 ^ nb_hyperplanes - 1) div int (2 ^ nb_hyperplanes) * 2)))
            depth) dv"
proof -
  let ?n = "2 ^ nb_hyperplanes :: nat"
  let ?h = "length list_lsh"
  let ?cq = "min (int len) (int len div int ?n * 2)"
  let ?ck = "min (int len) (int (len + ?n - 1) div int ?n * 2)"
  let ?gq = "concat (map (\<lambda>xb. map2 get_gates list_lsh xb) q)"
  let ?gk0 = "concat (map (\<lambda>xb. map2 get_gates list_lsh xb) k)"
  let ?gk = "map (add_first_element len) ?gk0"
  let ?mk = "\<lambda>c g. \<lparr> td_requests = g, td_num_experts = ?n, td_capacity = c \<rparr>"
  have entries: "\<forall>xb \<in> set x. length xb = ?h" "\<forall>xb \<in> set x. \<forall>xh \<in> set xb. length xh = len"
    "\<forall>xh \<in> set (concat x). length xh = len \<and> (\<forall>row \<in> set xh. length row = depth)"
    if "list_all (has_shape ?h len depth) x" for x
    using that by (auto simp: list_all_iff has_shape_def)
  from batch have k_ne: "k \<noteq> []" by auto
  have four: "4 \<le> ?n"
    using hyp(1) power_increasing [of 2 nb_hyperplanes "2::nat"] by simp
  from hyp(2) have small: "len \<le> 2147483647" "len + ?n \<le> 2147483647" by simp_all

  note sq = get_gates_head_slices [OF lsh entries(2) [OF shq]]
  note sk = get_gates_head_slices [OF lsh entries(2) [OF shk]]
  note nq = get_gates_head_nonempty [OF batch(1) heads entries(1) [OF shq]]
  note nk = get_gates_head_nonempty [OF k_ne heads entries(1) [OF shk]]

  have gq: "concat (get_gates_head list_lsh len q False) = ?gq"
    by (simp add: get_gates_head_def)
  have gk: "concat (get_gates_head list_lsh len k True) = ?gk"
    by (simp add: get_gates_head_def map_concat comp_def)
  have cq: "dispatcher_capacity ?n len ?gq = ?cq"
    using dispatcher_capacity_one_hot [OF nq sq small(1)] .
  have ck: "dispatcher_capacity ?n len ?gk = ?ck"
    using dispatcher_capacity_add_first [OF nk sk small(2)] .
  have cq0: "0 \<le> ?cq" by (simp add: pos_imp_zdiv_nonneg_iff)
  have ck0: "0 \<le> ?ck" by (simp add: pos_imp_zdiv_nonneg_iff)
  have sumq: "add_summary_capacity ?n ?gq = Inr ()"
    using nq four by (simp add: add_summary_capacity_def)
  have sumk: "add_summary_capacity ?n ?gk = Inr ()"
    using nk four by (simp add: add_summary_capacity_def)
  have dq: "get_dispatcher ?n len ?gq = Some (map (?mk (nat ?cq)) ?gq)"
    unfolding get_dispatcher_def cq Let_def using cq0 by simp
  have dk: "get_dispatcher ?n len ?gk = Some (map (?mk (nat ?ck)) ?gk)"
    unfolding get_dispatcher_def ck Let_def using ck0 by simp
  let ?dq = "map2 (\<lambda>d x. dispatch d depth x) (map (?mk (nat ?cq)) ?gq) (concat q)"
  let ?dk = "map2 (\<lambda>d x. dispatch d depth x) (map (?mk (nat ?ck)) ?gk) (concat k)"
  let ?dv = "map2 (\<lambda>d x. dispatch d depth x) (map (?mk (nat ?ck)) ?gk) (concat v)"
  have eq: "sparse_dot_product_attention_truncated_dispatch list_lsh ?n len depth q k v
      = Inr (Some (?dq, ?dk, ?dv))"
    unfolding sparse_dot_product_attention_truncated_dispatch_def
      dot_product_batched_head_dispatch_def Let_def gq gk sumq sumk dq dk
    by simp
  have lq: "length (concat q) = length q * ?h"
    using length_concat_const [OF entries(1) [OF shq]] .
  have lk: "length (concat k) = length q * ?h"
    using length_concat_const [OF entries(1) [OF shk]] batch(2) by simp
  have lv: "length (concat v) = length q * ?h"
    using length_concat_const [OF entries(1) [OF shv]] batch(3) by simp
  have lgq: "length ?gq = length q * ?h"
    using length_concat_gates [OF entries(1) [OF shq]] lq by simp
  have lgk: "length ?gk = length q * ?h"
    using length_concat_gates [OF entries(1) [OF shk]] lk by simp
  have len_dq: "length ?dq = length q * ?h" using lgq lq by simp
  have len_dk: "length ?dk = length q * ?h" using lgk lk by simp
  have len_dv: "length ?dv = length q * ?h" using lgk lv by simp
  have gq_len: "\<forall>g \<in> set ?gq. length g = len" using sq by blast
  have gk_len: "\<forall>g \<in> set ?gk. length g = len"
    using sk by (auto simp: length_add_first_element)
  note shape_q = dispatch_all_has_shape [OF gq_len entries(3) [OF shq], of ?n "nat ?cq"]
  note shape_k = dispatch_all_has_shape [OF gk_len entries(3) [OF shk], of ?n "nat ?ck"]
  note shape_v = dispatch_all_has_shape [OF gk_len entries(3) [OF shv], of ?n "nat ?ck"]
  from eq len_dq len_dk len_dv shape_q shape_k shape_v show ?thesis by blast
qed

text \<open>
  Claim C2. The tensor \<open>dispatch\<close> produces has one entry per bucket, each with
  \<open>capacity\<close> rows of the input's feature dimension: shape
  \<open>[num_experts, capacity, depth]\<close>.

  In \<open>grouped_attention_multihead\<close>, whatever the floating-point operations
  \<open>fl\<close>: when the two capacities the function computes are not negative,
  \<open>dispatched_q\<close> has shape \<open>[num_groups, capacity_q, depth_qk]\<close> and
  \<open>dispatched_kv\<close> has shape \<open>[num_groups, capacity_m, depth_qk + depth_v]\<close>, where
  \<open>capacity_q\<close> and \<open>capacity_m\<close> are computed from the lengths and the
  hyperparameters alone; when one of them is negative there is no dispatcher.

  On the LSH path (\<open>sparse_dot_product_attention_truncated\<close>, which is what calls
  \<open>dot_product_batched_head\<close>), with gatings built by the constructor with at least
  two hyperplanes, a batch that is not empty and at most \<open>2 ^ 24\<close> gates set in an
  entry of the batch: the function does not raise, and the dispatched queries, keys and
  values have, for every entry of the \<open>batch * heads\<close> axis, the shape
  \<open>[2 ^ nb_hyperplanes, capacity, depth]\<close>, where the capacity is
  \<open>min(len, len // nb_buckets * 2)\<close> for the queries and
  \<open>min(len, (len + nb_buckets - 1) // nb_buckets * 2)\<close> for the keys and values (the
  first element added to every bucket): functions of the length and of
  \<open>nb_hyperplanes\<close> alone, since the count of ones that \<open>get_dispatcher\<close> takes
  from the gates does not depend on which buckets the tokens fall in.
\<close>

theorem dispatch_shape_from_hyperparameters:
  assumes inp: "length inp = length (td_requests d)" "\<forall>row \<in> set inp. length row = depth"
    and grouped: "length q_pred_biased = length q" "\<forall>row \<in> set q. length row = depth_qk"
      "length m_pred_biased = length kv" "\<forall>row \<in> set kv. length row = depth_qk + depth_v"
    and lsh: "\<forall>self \<in> set list_lsh. \<exists>vector dpth nb_replicat trainable.
        LshGating_init vector dpth nb_hyperplanes nb_replicat trainable = Inr self"
      "2 \<le> nb_hyperplanes" "len + 2 ^ nb_hyperplanes \<le> 16777216" "list_lsh \<noteq> []"
    and batch: "xq \<noteq> []" "length xk = length xq" "length xv = length xq"
      "list_all (has_shape (length list_lsh) len dpt) xq"
      "list_all (has_shape (length list_lsh) len dpt) xk"
      "list_all (has_shape (length list_lsh) len dpt) xv"
  shows "has_shape (td_num_experts d) (td_capacity d) depth (dispatch d depth inp)
    \<and> (0 \<le> capacity_q fl (length q) num_groups multiplicative_overhead additive_overhead
        \<and> 0 \<le> capacity_m fl (length kv) num_groups memory_target_density
                 multiplicative_overhead additive_overhead \<longrightarrow>
       (\<exists>dispatched_q dispatched_kv.
          grouped_attention_multihead_dispatch fl num_groups depth_qk depth_v
              memory_target_density multiplicative_overhead additive_overhead q kv
              q_pred_biased m_pred_biased
            = Some (dispatched_q, dispatched_kv)
          \<and> has_shape num_groups
              (nat (capacity_q fl (length q) num_groups multiplicative_overhead
                      additive_overhead))
              depth_qk dispatched_q
          \<and> has_shape num_groups
              (nat (capacity_m fl (length kv) num_groups memory_target_density
                      multiplicative_overhead additive_overhead))
              (depth_qk + depth_v) dispatched_kv))
    \<and> (capacity_q fl (length q) num_groups multiplicative_overhead additive_overhead < 0
        \<or> capacity_m fl (length kv) num_groups memory_target_density
             multiplicative_overhead additive_overhead < 0 \<longrightarrow>
       grouped_attention_multihead_dispatch fl num_groups depth_qk depth_v
           memory_target_density multiplicative_overhead additive_overhead q kv
           q_pred_biased m_pred_biased = None)
    \<and> (\<exists>dq dk dv.
          sparse_dot_product_attention_truncated_dispatch list_lsh (2 ^ nb_hyperplanes) len dpt
              xq xk xv = Inr (Some (dq, dk, dv))
          \<and> length dq = length xq * length list_lsh
          \<and> length dk = length xq * length list_lsh
          \<and> length dv = length xq * length list_lsh
          \<and> list_all (has_shape (2 ^ nb_hyperplanes)
                (nat (min (int len) (int len div int (2 ^ nb_hyperplanes) * 2))) dpt) dq
          \<and> list_all (has_shape (2 ^ nb_hyperplanes)
                (nat (min (int len)
                        (int (len + 2 ^ nb_hyperplanes - 1) div int (2 ^ nb_hyperplanes) * 2)))
                dpt) dk
          \<and> list_all (has_shape (2 ^ nb_hyperplanes)
                (nat (min (int len)
                        (int (len + 2 ^ nb_hyperplanes - 1) div int (2 ^ nb_hyperplanes) * 2)))
                dpt) dv)"
proof -
  note a = dispatch_has_shape [OF inp]
  note b = grouped_dispatch_shapes [OF grouped, of fl num_groups multiplicative_overhead
      additive_overhead memory_target_density]
  note c = grouped_dispatch_negative [of fl q num_groups multiplicative_overhead
      additive_overhead kv memory_target_density depth_qk depth_v q_pred_biased m_pred_biased]
  note e = lsh_dispatch_shapes [OF lsh(1,2,3,4) batch]
  from a b c e show ?thesis by blast
qed

lemma upt_4: "[0..<4] = [0, Suc 0, 2, 3]"
  by code_simp

lemma LshGating_init_two_hyperplanes:
  "LshGating_init [[1, 0], [0, 1]] 2 2 1 False
     = Inr \<lparr> self_depth = 2, self_nb_hyperplanes = 2, self_nb_buckets = 4,
             self_nb_replicat = 1, self_trainable = False,
             self_t_vectors = [[1, 0], [0, 1]],
             self_t_group = [[- 1, - 1], [- 1, 1], [1, - 1], [1, 1]] \<rparr>"
proof -
  have b0: "bin_digits 0 = ''0''" by (simp add: bin_digits.simps [of 0])
  have b1: "bin_digits (Suc 0) = ''1''" by (simp add: bin_digits.simps [of "Suc 0"])
  have b2: "bin_digits 2 = ''10''" by (simp add: bin_digits.simps [of 2] b1)
  have b3: "bin_digits 3 = ''11''" by (simp add: bin_digits.simps [of 3] b1)
  have bits: "map (idx_to_bits 2) [0..<4] = [[- 1, - 1], [- 1, 1], [1, - 1], [1, 1]]"
    unfolding upt_4 by (simp add: idx_to_bits_def zfill_def b0 b1 b2 b3)
  show ?thesis by (simp add: LshGating_init_def bits)
qed

theorem dispatch_shape_from_hyperparameters_witness:
  "has_shape 2 2 2
     (dispatch \<lparr> td_requests = [[1, 0], [0, 1], [1, 0]], td_num_experts = 2,
                 td_capacity = 2 \<rparr> 2 [[1, 2], [3, 4], [5, 6]])
   \<and> capacity_q exact_float32 2 4 (5 / 4) 8 = 2
   \<and> capacity_m exact_float32 2 4 2 (5 / 4) 8 = 2
   \<and> (\<exists>dispatched_q dispatched_kv.
        grouped_attention_multihead_dispatch exact_float32 4 1 1 2 (5 / 4) 8
            [[1], [2]] [[5, 6], [7, 8]] [[0, 0, 0, 0], [1, 0, 0, 0]]
            [[0, 0, 0, 0], [1, 0, 0, 0]]
          = Some (dispatched_q, dispatched_kv)
        \<and> has_shape 4 2 1 dispatched_q \<and> has_shape 4 2 2 dispatched_kv)
   \<and> capacity_q exact_float32 2 4 1 (- 2) = - 1
   \<and> grouped_attention_multihead_dispatch exact_float32 4 1 1 2 1 (- 2)
        [[1], [2]] [[5, 6], [7, 8]] [[0, 0, 0, 0], [1, 0, 0, 0]]
        [[0, 0, 0, 0], [1, 0, 0, 0]] = None
   \<and> (\<exists>dq dk dv.
        sparse_dot_product_attention_truncated_dispatch
            [\<lparr> self_depth = 2, self_nb_hyperplanes = 2, self_nb_buckets = 4,
               self_nb_replicat = 1, self_trainable = False,
               self_t_vectors = [[1, 0], [0, 1]],
               self_t_group = [[- 1, - 1], [- 1, 1], [1, - 1], [1, 1]] \<rparr>]
            4 4 2
            [[[[3, 1], [0, 2], [- 1, 1], [2, - 2]]]]
            [[[[3, 1], [0, 2], [- 1, 1], [2, - 2]]]]
            [[[[1, 2], [3, 4], [5, 6], [7, 8]]]]
          = Inr (Some (dq, dk, dv))
        \<and> length dq = 1 \<and> length dk = 1 \<and> length dv = 1
        \<and> list_all (has_shape 4 2 2) dq
        \<and> list_all (has_shape 4 2 2) dk
        \<and> list_all (has_shape 4 2 2) dv)"
proof -
  let ?g = "\<lparr> self_depth = 2, self_nb_hyperplanes = 2, self_nb_buckets = 4,
             self_nb_replicat = 1, self_trainable = False,
             self_t_vectors = [[1, 0], [0, 1]],
             self_t_group = [[- 1, - 1], [- 1, 1], [1, - 1], [1, 1::real]] \<rparr>"
  let ?d = "\<lparr> td_requests = [[1, 0], [0, 1], [1, 0::real]], td_num_experts = 2,
              td_capacity = 2 \<rparr>"
  let ?inp = "[[1, 2], [3, 4], [5, 6::real]]"
  let ?q = "[[1], [2::real]]"
  let ?kv = "[[5, 6], [7, 8::real]]"
  let ?p = "[[0, 0, 0, 0], [1, 0, 0, 0::real]]"
  let ?x = "[[[[3, 1], [0, 2], [- 1, 1], [2, - 2::real]]]]"
  let ?v = "[[[[1, 2], [3, 4], [5, 6], [7, 8::real]]]]"
  have h1: "length ?inp = length (td_requests ?d)" "\<forall>row \<in> set ?inp. length row = 2"
    by simp_all
  have h2: "length ?p = length ?q" "\<forall>row \<in> set ?q. length row = 1"
    "length ?p = length ?kv" "\<forall>row \<in> set ?kv. length row = 1 + 1"
    by simp_all
  have h3: "\<forall>self \<in> set [?g]. \<exists>vector dpth nb_replicat trainable.
        LshGating_init vector dpth 2 nb_replicat trainable = Inr self"
    "2 \<le> (2::nat)" "4 + 2 ^ 2 \<le> (16777216::nat)" "[?g] \<noteq> []"
    using LshGating_init_two_hyperplanes by auto
  have h4: "?x \<noteq> []" "length ?x = length ?x" "length ?v = length ?x"
    "list_all (has_shape (length [?g]) 4 2) ?x"
    "list_all (has_shape (length [?g]) 4 2) ?x"
    "list_all (has_shape (length [?g]) 4 2) ?v"
    by (simp_all add: has_shape_def)
  have cq: "capacity_q exact_float32 (Suc (Suc 0)) 4 (5 / 4) 8 = 2"
    by (simp add: capacity_q_def exact_float32_def to_int32_def)
  have cm: "capacity_m exact_float32 (Suc (Suc 0)) 4 2 (5 / 4) 8 = 2"
    by (simp add: capacity_m_def exact_float32_def to_int32_def)
  have cn: "capacity_q exact_float32 (Suc (Suc 0)) 4 1 (- 2) = - 1"
    by (simp add: capacity_q_def exact_float32_def to_int32_def)
  have cq': "capacity_q exact_float32 2 4 (5 / 4) 8 = 2"
    by (simp add: capacity_q_def exact_float32_def to_int32_def)
  have cm': "capacity_m exact_float32 2 4 2 (5 / 4) 8 = 2"
    by (simp add: capacity_m_def exact_float32_def to_int32_def)
  have cn': "capacity_q exact_float32 2 4 1 (- 2) = - 1"
    by (simp add: capacity_q_def exact_float32_def to_int32_def)
  note t = dispatch_shape_from_hyperparameters [OF h1 h2 h3 h4,
      where fl = exact_float32 and num_groups = 4 and memory_target_density = 2]
  note t1 = t [where multiplicative_overhead = "5 / 4" and additive_overhead = 8]
  note t2 = t [where multiplicative_overhead = 1 and additive_overhead = "- 2"]
  from t1 have a: "has_shape 2 2 2 (dispatch ?d 2 ?inp)" by simp
  from t1 cq cm have b: "\<exists>dispatched_q dispatched_kv.
        grouped_attention_multihead_dispatch exact_float32 4 1 1 2 (5 / 4) 8 ?q ?kv ?p ?p
          = Some (dispatched_q, dispatched_kv)
        \<and> has_shape 4 2 1 dispatched_q \<and> has_shape 4 2 2 dispatched_kv"
    by (simp add: numeral_2_eq_2)
  from t2 cn have c: "grouped_attention_multihead_dispatch exact_float32 4 1 1 2 1 (- 2)
        ?q ?kv ?p ?p = None"
    by simp
  from t1 have e: "\<exists>dq dk dv.
        sparse_dot_product_attention_truncated_dispatch [?g] 4 4 2 ?x ?x ?v
          = Inr (Some (dq, dk, dv))
        \<and> length dq = 1 \<and> length dk = 1 \<and> length dv = 1
        \<and> list_all (has_shape 4 2 2) dq
        \<and> list_all (has_shape 4 2 2) dk
        \<and> list_all (has_shape 4 2 2) dv"
    by simp
  from a cq' cm' b cn' c e show ?thesis by blast
qed

subsection \<open>The first position in every group\<close>

text \<open>
  The requests of the memory in \<open>grouped_attention_multihead\<close> and the gates of the
  keys in \<open>sparse_dot_product_attention_truncated\<close>: the first position requests
  every group, the others are left as they are.
\<close>

lemma add_first_element_nth:
  assumes "j < length gates" "e < length (gates ! j)"
  shows "add_first_element (length gates) gates ! j ! e
    = max (gates ! j ! e) (if j = 0 then 1 else 0)"
  using assms by (simp add: add_first_element_def one_hot_nth length_one_hot)

lemma grouped_m_requests_nth:
  assumes "j < length m_pred_biased" "e < length (m_pred_biased ! j)"
  shows "grouped_m_requests m_pred_biased ! j ! e
    = (if j = 0 \<or> 0 < m_pred_biased ! j ! e then 1 else 0)"
  using assms by (simp add: grouped_m_requests_def Let_def one_hot_nth length_one_hot)

text \<open>
  Whatever the floating-point operations, the capacity of the memory dispatcher is not
  positive for an empty memory.
\<close>

lemma capacity_m_empty_memory:
  "capacity_m fl 0 num_groups memory_target_density multiplicative_overhead additive_overhead
     \<le> 0"
  by (simp add: capacity_m_def Let_def)

text \<open>
  Claim C8. \<open>grouped_attention_multihead\<close> makes the first memory position request
  every group, "to avoid division by zero" as its comment says, but it does not guard
  the capacity of the memory dispatcher. With 4 queries, 4 memory positions, 4 groups,
  \<open>memory_target_density = 0.5\<close>, \<open>multiplicative_overhead = 1.0\<close> and
  \<open>additive_overhead = 0.0\<close> the capacities are \<open>capacity_q = 1\<close> and
  \<open>capacity_m = to_int32(0.5) = 0\<close> (every intermediate value, \<open>4\<close>, \<open>2\<close>, \<open>1\<close>
  and \<open>0.5\<close>, is a \<open>float32\<close> value, so the operations are the exact ones). The first
  memory position requests all four groups, each group is dispatched one query, and
  the key axis of every group is empty.
\<close>

theorem first_position_dropped_by_zero_capacity:
  "grouped_m_requests
       [[- 1, - 1, - 1, - 1], [2, - 1, - 1, - 1], [- 1, - 1, - 1, - 1], [- 1, - 1, - 1, - 1]]
     = [[1, 1, 1, 1], [1, 0, 0, 0], [0, 0, 0, 0], [0, 0, 0, 0]]
   \<and> capacity_q exact_float32 4 4 1 0 = 1
   \<and> capacity_m exact_float32 4 4 (1 / 2) 1 0 = 0
   \<and> grouped_attention_multihead_dispatch exact_float32 4 1 1 (1 / 2) 1 0
        [[1], [2], [3], [4]]
        [[5, 6], [7, 8], [9, 10], [11, 12]]
        [[1, 0, 0, 0], [0, 1, 0, 0], [0, 0, 1, 0], [0, 0, 0, 1]]
        [[- 1, - 1, - 1, - 1], [2, - 1, - 1, - 1], [- 1, - 1, - 1, - 1], [- 1, - 1, - 1, - 1]]
     = Some ([[[1]], [[2]], [[3]], [[4]]], [[], [], [], []])"
proof -
  have upt4: "[0..<4] = [0, Suc 0, 2, 3]" by code_simp
  have r: "grouped_m_requests
       [[- 1, - 1, - 1, - 1], [2, - 1, - 1, - 1], [- 1, - 1, - 1, - 1], [- 1, - 1, - 1, - 1]]
     = [[1, 1, 1, 1], [1, 0, 0, 0], [0, 0, 0, 0], [0, 0, 0, 0]]"
    by (simp add: grouped_m_requests_def one_hot_def upt4)
  have cq: "capacity_q exact_float32 4 4 1 0 = 1"
    by (simp add: capacity_q_def exact_float32_def to_int32_def)
  have cm: "capacity_m exact_float32 4 4 (1 / 2) 1 0 = 0"
    by (simp add: capacity_m_def exact_float32_def to_int32_def)
  have cq': "capacity_q exact_float32 (Suc (Suc (Suc (Suc 0)))) 4 1 0 = 1"
    by (simp add: capacity_q_def exact_float32_def to_int32_def)
  have cm': "capacity_m exact_float32 (Suc (Suc (Suc (Suc 0)))) 4 (1 / 2) 1 0 = 0"
    by (simp add: capacity_m_def exact_float32_def to_int32_def)
  have q: "grouped_q_requests 4 [[1, 0, 0, 0], [0, 1, 0, 0], [0, 0, 1, 0], [0, 0, 0, 1]]
     = [[1, 0, 0, 0], [0, 1, 0, 0], [0, 0, 1, 0], [0, 0, 0, 1]]"
    by (simp add: grouped_q_requests_def one_hot_def upt4)
  have d: "grouped_attention_multihead_dispatch exact_float32 4 1 1 (1 / 2) 1 0
        [[1], [2], [3], [4]]
        [[5, 6], [7, 8], [9, 10], [11, 12]]
        [[1, 0, 0, 0], [0, 1, 0, 0], [0, 0, 1, 0], [0, 0, 0, 1]]
        [[- 1, - 1, - 1, - 1], [2, - 1, - 1, - 1], [- 1, - 1, - 1, - 1], [- 1, - 1, - 1, - 1]]
     = Some ([[[1]], [[2]], [[3]], [[4]]], [[], [], [], []])"
    by (simp add: grouped_attention_multihead_dispatch_def grouped_q_dispatcher_def
        grouped_m_dispatcher_def TruncatingDispatcher_init_def cq' cm' q r dispatch_def
        expert_slots_def expert_tokens_def upt4)
  from r cq cm d show ?thesis by blast
qed

end
